theory Spec2Isabelle
  imports Complex_Main
begin

section \<open>Numbers and small helpers\<close>

text \<open>
  JavaScript numbers are modelled as mathematical reals: rounding error and overflow of
  IEEE doubles are left out.  Where the source can produce a value that is not a finite
  number (a division by zero, arithmetic on \<open>undefined\<close>), the model says so with
  \<open>None\<close> in a \<open>real option\<close>.  \<open>Math.floor\<close> is \<open>floor\<close>, and
  \<open>Math.round\<close> rounds half up.
\<close>

definition js_floor :: "real \<Rightarrow> real" where
  "js_floor r = of_int \<lfloor>r\<rfloor>"

definition js_round :: "real \<Rightarrow> real" where
  "js_round r = of_int \<lfloor>r + 1 / 2\<rfloor>"

text \<open>
  A division whose divisor is zero gives \<open>Infinity\<close> or \<open>NaN\<close> in JavaScript,
  never the 0 of HOL's \<open>/\<close>.
\<close>

definition js_div :: "real \<Rightarrow> real \<Rightarrow> real option" where
  "js_div a b = (if b = 0 then None else Some (a / b))"

section \<open>Data model\<close>

text \<open>
  The object built by \<open>getCurrentViewportBounds\<close> and read by the transforms through
  \<open>imageInfo.viewportBounds\<close>.  A property the object does not carry reads as
  \<open>undefined\<close>: \<open>vb_downsample = None\<close>.
\<close>

record viewportBounds =
  vb_x :: real
  vb_y :: real
  vb_width :: real
  vb_height :: real
  vb_downsample :: "real option"

text \<open>
  The object returned by \<open>getCurrentImageData\<close>.  The fields \<open>scale\<close> (the
  constant 1.0) and \<open>containerSize\<close> are read by none of the modelled functions and
  are left out.
\<close>

record imageInfo =
  ii_imageData :: string
  ii_width :: real
  ii_height :: real
  ii_viewportBounds :: "viewportBounds option"

text \<open>
  The part of the OpenSeadragon viewer the code queries.  The viewer is an external
  collaborator, so its answers are fields of the record: \<open>viewport.getBounds()\<close>,
  \<open>viewport.getZoom(true)\<close>, \<open>viewport.viewportToImageCoordinates\<close>,
  \<open>viewport.getContainerSize()\<close>, and the base64 content of the rendering canvas
  (\<open>None\<close> when the canvas is missing or cannot be read).
\<close>

record viewer =
  vw_bounds :: "real \<times> real \<times> real \<times> real"
  vw_zoom :: real
  vw_viewportToImage :: "real \<times> real \<Rightarrow> real \<times> real"
  vw_containerSize :: "real \<times> real"
  vw_canvasData :: "string option"

text \<open>
  The coordinate object produced by \<open>extractCoordinatesFromAnnotation\<close>:
  \<open>{type, x, y, width?, height?}\<close>.
\<close>

record coords =
  c_type :: "string option"
  c_x :: real
  c_y :: real
  c_width :: "real option"
  c_height :: "real option"

section \<open>coordinate-transforms.js\<close>

subsection \<open>transformCoordinatesToCanvasQuPathStyle\<close>

text \<open>
  The arguments \<open>vw\<close> and \<open>wci\<close> are the globals \<open>viewer\<close> and
  \<open>window.currentImageInfo\<close> the function reads.  Every early \<open>return coords\<close> of
  the source is a branch that returns the input unchanged.
\<close>

text \<open>
  Step 1 of the source: a point whose two coordinates both lie in \<open>[0, 1]\<close> is taken
  for a normalized viewport point and converted by the viewer; any other point is taken
  for an image-pixel point already.
\<close>

definition imagePixelCoordsOf :: "viewer \<Rightarrow> coords \<Rightarrow> real \<times> real" where
  "imagePixelCoordsOf v cs =
    (if c_x cs \<ge> 0 \<and> c_x cs \<le> 1 \<and> c_y cs \<ge> 0 \<and> c_y cs \<le> 1
     then vw_viewportToImage v (c_x cs, c_y cs)
     else (c_x cs, c_y cs))"

text \<open>
  Step 2 of the source, from \<open>let transformedCoords\<close> to the final \<open>return\<close>:
  floor of the offset difference over the downsample factor, then the clamp into the
  canvas.  The result object has no \<open>type\<close> property.
\<close>

definition canvasCoordsOf ::
  "real \<Rightarrow> viewportBounds \<Rightarrow> imageInfo \<Rightarrow> real \<times> real \<Rightarrow> coords \<Rightarrow> coords" where
  "canvasCoordsOf downsample bounds imageInfo imagePixelCoords cs =
    (let x0 = js_floor ((fst imagePixelCoords - vb_x bounds) / downsample);
         y0 = js_floor ((snd imagePixelCoords - vb_y bounds) / downsample);
         w0 = map_option (\<lambda>w. js_floor (w / downsample)) (c_width cs);
         h0 = map_option (\<lambda>h. js_floor (h / downsample)) (c_height cs);
         x1 = max 0 (min (ii_width imageInfo - 1) x0);
         y1 = max 0 (min (ii_height imageInfo - 1) y0);
         w1 = map_option (\<lambda>w. max 1 (min (ii_width imageInfo - x1) w)) w0;
         h1 = map_option (\<lambda>h. max 1 (min (ii_height imageInfo - y1) h)) h0
     in \<lparr>c_type = None, c_x = x1, c_y = y1, c_width = w1, c_height = h1\<rparr>)"

definition transformCoordinatesToCanvasQuPathStyle ::
  "viewer option \<Rightarrow> imageInfo option \<Rightarrow> coords \<Rightarrow> imageInfo option \<Rightarrow> coords" where
  "transformCoordinatesToCanvasQuPathStyle vw wci cs info =
    (case (vw, info) of
      (Some v, Some imageInfo) \<Rightarrow>
        (let currentImageInfo = (case wci of Some c \<Rightarrow> c | None \<Rightarrow> imageInfo);
             imagePixelCoords = imagePixelCoordsOf v cs
         in case ii_viewportBounds currentImageInfo of
              None \<Rightarrow> cs
            | Some bounds \<Rightarrow>
                (case vb_downsample bounds of
                  None \<Rightarrow> cs
                | Some downsample \<Rightarrow>
                    if downsample = 0 then cs
                    else canvasCoordsOf downsample bounds imageInfo imagePixelCoords cs))
    | _ \<Rightarrow> cs)"

subsection \<open>transformCanvasCoordinatesToWSIQuPathStyle\<close>

text \<open>
  The function dispatches on the run-time nesting of its argument, so the argument is a
  dynamic value: JSON \<open>null\<close>, a number, or an array.  \<open>NaNv\<close> only arises as a
  result.
\<close>

datatype jsval = Null | Num real | NaNv | Arr "jsval list"

text \<open>
  \<open>ToNumber\<close> on these values; \<open>None\<close> is \<open>NaN\<close>.  An array is converted through
  its string: the empty array gives 0, a one-element array the number of its element,
  a longer array \<open>NaN\<close>.
\<close>

fun toNumber :: "jsval \<Rightarrow> real option" where
  "toNumber Null = Some 0"
| "toNumber (Num r) = Some r"
| "toNumber NaNv = None"
| "toNumber (Arr []) = Some 0"
| "toNumber (Arr [v]) = toNumber v"
| "toNumber (Arr (v # w # vs)) = None"

text \<open>\<open>canvasCoord * downsample + offset\<close>.\<close>

definition scaleOffset :: "real \<Rightarrow> real \<Rightarrow> jsval \<Rightarrow> jsval" where
  "scaleOffset downsample off c =
    (case toNumber c of None \<Rightarrow> NaNv | Some r \<Rightarrow> Num (r * downsample + off))"

text \<open>The inner function \<open>transformCoordinate\<close>.\<close>

definition transformCoordinate :: "real \<Rightarrow> real \<Rightarrow> real \<Rightarrow> jsval \<Rightarrow> jsval" where
  "transformCoordinate downsample xOffset yOffset coord =
    (case coord of
      Arr (canvasX # canvasY # _) \<Rightarrow>
        Arr [scaleOffset downsample xOffset canvasX, scaleOffset downsample yOffset canvasY]
    | _ \<Rightarrow> Arr [Num 0, Num 0])"

text \<open>
  \<open>ring.map(...)\<close> on a value that is not an array raises a \<open>TypeError\<close>, which the
  \<open>try\<close> block turns into \<open>null\<close>: \<open>None\<close> here.
\<close>

definition mapRing :: "(jsval \<Rightarrow> jsval) \<Rightarrow> jsval \<Rightarrow> jsval option" where
  "mapRing f ring = (case ring of Arr cs \<Rightarrow> Some (Arr (map f cs)) | _ \<Rightarrow> None)"

fun mapRings :: "(jsval \<Rightarrow> jsval) \<Rightarrow> jsval list \<Rightarrow> jsval list option" where
  "mapRings f [] = Some []"
| "mapRings f (r # rs) =
    (case mapRing f r of
      None \<Rightarrow> None
    | Some r' \<Rightarrow> (case mapRings f rs of None \<Rightarrow> None | Some rs' \<Rightarrow> Some (r' # rs')))"

text \<open>
  The \<open>try\<close> block: the dispatch on the nesting of the argument, whose elements are
  \<open>elems\<close>.  An argument that is empty or starts with something that is not an array is
  taken for one coordinate.
\<close>

definition reverseDispatch :: "(jsval \<Rightarrow> jsval) \<Rightarrow> jsval list \<Rightarrow> jsval option" where
  "reverseDispatch tc elems =
    (case elems of
      Arr inner # _ \<Rightarrow>
        (case inner of
          Arr _ # _ \<Rightarrow> map_option Arr (mapRings tc elems)
        | _ \<Rightarrow> Some (Arr [Arr (map tc elems)]))
    | _ \<Rightarrow> Some (Arr [tc (Arr elems)]))"

datatype js_error = TypeError

text \<open>
  \<open>Inl TypeError\<close>: the function throws (the reads \<open>viewer.viewport\<close> and
  \<open>currentImageInfo.viewportBounds\<close> stand outside the \<open>try\<close> block).
  \<open>Inr None\<close>: it returns \<open>null\<close>.
\<close>

definition transformCanvasCoordinatesToWSIQuPathStyle ::
  "viewer option \<Rightarrow> imageInfo option \<Rightarrow> jsval \<Rightarrow> imageInfo option \<Rightarrow> js_error + jsval option" where
  "transformCanvasCoordinatesToWSIQuPathStyle vw wci canvasCoordinates info =
    (case canvasCoordinates of
      Arr elems \<Rightarrow>
        (case vw of
          None \<Rightarrow> Inl TypeError
        | Some v \<Rightarrow>
            (case (case wci of Some c \<Rightarrow> Some c | None \<Rightarrow> info) of
              None \<Rightarrow> Inl TypeError
            | Some currentImageInfo \<Rightarrow>
                (case ii_viewportBounds currentImageInfo of
                  None \<Rightarrow> Inr None
                | Some bounds \<Rightarrow>
                    (case vb_downsample bounds of
                      None \<Rightarrow> Inr None
                    | Some downsample \<Rightarrow>
                        if downsample = 0 then Inr None
                        else Inr (reverseDispatch
                               (transformCoordinate downsample (vb_x bounds) (vb_y bounds))
                               elems)))))
    | _ \<Rightarrow> Inr None)"

text \<open>The two legacy wrappers of coordinate-transforms.js.\<close>

definition transformWSIToCanvasCoordinates_ct ::
  "viewer option \<Rightarrow> imageInfo option \<Rightarrow> coords \<Rightarrow> imageInfo option \<Rightarrow> coords" where
  "transformWSIToCanvasCoordinates_ct = transformCoordinatesToCanvasQuPathStyle"

definition transformCanvasToWSICoordinates_ct ::
  "viewer option \<Rightarrow> imageInfo option \<Rightarrow> jsval \<Rightarrow> imageInfo option \<Rightarrow> js_error + jsval option" where
  "transformCanvasToWSICoordinates_ct = transformCanvasCoordinatesToWSIQuPathStyle"

subsection \<open>getCurrentViewportBounds\<close>

text \<open>
  The function computes \<open>downsample = 1.0 / currentZoom\<close> in a local constant and then
  builds the returned object from \<open>x\<close>, \<open>y\<close>, \<open>width\<close> and \<open>height\<close> only.
\<close>

definition getCurrentViewportBounds :: "viewer option \<Rightarrow> viewportBounds option" where
  "getCurrentViewportBounds vw =
    (case vw of
      None \<Rightarrow> None
    | Some v \<Rightarrow>
        (case vw_bounds v of (bx, by, bw, bh) \<Rightarrow>
          (let topLeftImage = vw_viewportToImage v (bx, by);
               bottomRightImage = vw_viewportToImage v (bx + bw, by + bh);
               currentZoom = vw_zoom v;
               downsample = 1 / currentZoom
           in Some \<lparr>vb_x = js_round (fst topLeftImage),
                     vb_y = js_round (snd topLeftImage),
                     vb_width = js_round (fst bottomRightImage - fst topLeftImage),
                     vb_height = js_round (snd bottomRightImage - snd topLeftImage),
                     vb_downsample = None\<rparr>)))"

section \<open>sam-api.js: region-relative transforms\<close>

text \<open>
  A position is a pair of numbers, a ring a list of positions, a polygon's coordinates a
  list of rings: the polygon geometry of the remote service's response.
\<close>

type_synonym point = "real \<times> real"
type_synonym ring = "point list"

text \<open>A computed position: each component is a finite number or not (\<open>None\<close>).\<close>

type_synonym numpoint = "real option \<times> real option"

record wsiRegion =
  wr_left :: real
  wr_top :: real
  wr_width :: real
  wr_height :: real

definition regionOf :: "viewportBounds \<Rightarrow> wsiRegion" where
  "regionOf b = \<lparr>wr_left = vb_x b, wr_top = vb_y b, wr_width = vb_width b, wr_height = vb_height b\<rparr>"

text \<open>\<open>viewportShape\<close> is the pair (width, height) of the capture.\<close>

text \<open>
  The point may carry a component that is not a finite number (a box without
  \<open>width\<close> adds \<open>undefined\<close> to \<open>x\<close>); the result is then not finite either.
\<close>

definition wsiToViewportCoords :: "numpoint \<Rightarrow> wsiRegion \<Rightarrow> real \<times> real \<Rightarrow> numpoint" where
  "wsiToViewportCoords wsiPoint region viewportShape =
    (let relX = Option.bind (fst wsiPoint) (\<lambda>wsiX. js_div (wsiX - wr_left region) (wr_width region));
         relY = Option.bind (snd wsiPoint) (\<lambda>wsiY. js_div (wsiY - wr_top region) (wr_height region));
         viewportX = map_option (\<lambda>r. js_floor (r * fst viewportShape)) relX;
         viewportY = map_option (\<lambda>r. js_floor (r * snd viewportShape)) relY
     in (viewportX, viewportY))"

definition num_sub :: "real option \<Rightarrow> real option \<Rightarrow> real option" where
  "num_sub a b = (case (a, b) of (Some x, Some y) \<Rightarrow> Some (x - y) | _ \<Rightarrow> None)"

text \<open>
  The object the forward transform hands to the request builder.  A component is
  \<open>None\<close> when the property is missing or is not a finite number.
\<close>

record canvasCoords =
  cc_x :: "real option"
  cc_y :: "real option"
  cc_width :: "real option"
  cc_height :: "real option"

text \<open>
  \<open>Inl TypeError\<close>: \<open>imageInfo.viewportBounds\<close> is \<open>null\<close> and reading its
  \<open>x\<close> throws.  \<open>Inr None\<close>: the type is neither \<open>point\<close> nor \<open>box\<close>.
\<close>

definition transformWSIToCanvasCoordinates ::
  "coords \<Rightarrow> imageInfo \<Rightarrow> js_error + canvasCoords option" where
  "transformWSIToCanvasCoordinates cs imageInfo =
    (case ii_viewportBounds imageInfo of
      None \<Rightarrow> Inl TypeError
    | Some viewportBounds \<Rightarrow>
        (let viewportShape = (ii_width imageInfo, ii_height imageInfo);
             region = regionOf viewportBounds
         in if c_type cs = Some ''point'' then
              (let canvasPt = wsiToViewportCoords (Some (c_x cs), Some (c_y cs)) region viewportShape
               in Inr (Some \<lparr>cc_x = fst canvasPt, cc_y = snd canvasPt,
                              cc_width = None, cc_height = None\<rparr>))
            else if c_type cs = Some ''box'' then
              (let topLeft = wsiToViewportCoords (Some (c_x cs), Some (c_y cs)) region viewportShape;
                   bottomRight = wsiToViewportCoords
                     (map_option (\<lambda>w. c_x cs + w) (c_width cs),
                      map_option (\<lambda>h. c_y cs + h) (c_height cs)) region viewportShape
               in Inr (Some \<lparr>cc_x = fst topLeft, cc_y = snd topLeft,
                              cc_width = num_sub (fst bottomRight) (fst topLeft),
                              cc_height = num_sub (snd bottomRight) (snd topLeft)\<rparr>))
            else Inr None))"

text \<open>
  A number that may be one of the three values that are not finite.  The inverse
  transform divides 1.0 by the capture's width and height, and the SVG encoders print
  what comes out, so the three values have to be told apart.  Zero is the positive zero.
\<close>

datatype jsnum = Fin real | PosInf | NegInf | NaN

definition jsnum_sign :: "jsnum \<Rightarrow> int" where
  "jsnum_sign a =
    (case a of
      Fin x \<Rightarrow> (if x = 0 then 0 else if 0 < x then 1 else - 1)
    | PosInf \<Rightarrow> 1
    | NegInf \<Rightarrow> - 1
    | NaN \<Rightarrow> 0)"

definition jsnum_times :: "jsnum \<Rightarrow> jsnum \<Rightarrow> jsnum" where
  "jsnum_times a b =
    (case (a, b) of
      (Fin x, Fin y) \<Rightarrow> Fin (x * y)
    | (NaN, _) \<Rightarrow> NaN
    | (_, NaN) \<Rightarrow> NaN
    | _ \<Rightarrow>
        (if jsnum_sign a * jsnum_sign b = 0 then NaN
         else if 0 < jsnum_sign a * jsnum_sign b then PosInf else NegInf))"

definition jsnum_plus :: "jsnum \<Rightarrow> jsnum \<Rightarrow> jsnum" where
  "jsnum_plus a b =
    (case (a, b) of
      (Fin x, Fin y) \<Rightarrow> Fin (x + y)
    | (NaN, _) \<Rightarrow> NaN
    | (_, NaN) \<Rightarrow> NaN
    | (PosInf, NegInf) \<Rightarrow> NaN
    | (NegInf, PosInf) \<Rightarrow> NaN
    | (PosInf, _) \<Rightarrow> PosInf
    | (_, PosInf) \<Rightarrow> PosInf
    | _ \<Rightarrow> NegInf)"

text \<open>\<open>1.0 / w\<close>.\<close>

definition jsnum_recip :: "real \<Rightarrow> jsnum" where
  "jsnum_recip w = (if w = 0 then PosInf else Fin (1 / w))"

type_synonym wsipoint = "jsnum \<times> jsnum"

definition viewportToWsiCoords :: "ring \<Rightarrow> wsiRegion \<Rightarrow> real \<times> real \<Rightarrow> wsipoint list" where
  "viewportToWsiCoords viewportCoords region viewportShape =
    (if viewportCoords = [] then []
     else
       (let widthInv = jsnum_recip (fst viewportShape);
            heightInv = jsnum_recip (snd viewportShape)
        in map (\<lambda>coord.
                 (jsnum_plus (Fin (wr_left region))
                    (jsnum_times (jsnum_times (Fin (fst coord)) widthInv) (Fin (wr_width region))),
                  jsnum_plus (Fin (wr_top region))
                    (jsnum_times (jsnum_times (Fin (snd coord)) heightInv) (Fin (wr_height region)))))
               viewportCoords))"

text \<open>
  \<open>Inr None\<close>: \<open>coordinates[0]\<close> is missing and the function returns \<open>null\<close>.
  Only \<open>coordinates[0]\<close> is read, and the result is an array of one ring.
\<close>

definition transformCanvasToWSICoordinates ::
  "ring list \<Rightarrow> imageInfo \<Rightarrow> js_error + wsipoint list list option" where
  "transformCanvasToWSICoordinates coordinates imageInfo =
    (case coordinates of
      [] \<Rightarrow> Inr None
    | first # _ \<Rightarrow>
        (case ii_viewportBounds imageInfo of
          None \<Rightarrow> Inl TypeError
        | Some viewportBounds \<Rightarrow>
            Inr (Some [viewportToWsiCoords first (regionOf viewportBounds)
                         (ii_width imageInfo, ii_height imageInfo)])))"

section \<open>SVG encoders\<close>

text \<open>
  \<open>dquote\<close> is the double-quote character of the SVG attributes.
  The text of a finite number in a template literal is JavaScript's
  \<open>Number::toString\<close>, which is not modelled: it is the parameter \<open>showNum\<close>.
\<close>

definition dquote :: string where
  "dquote = [CHR 0x22]"

definition showJsnum :: "(real \<Rightarrow> string) \<Rightarrow> jsnum \<Rightarrow> string" where
  "showJsnum showNum n =
    (case n of
      Fin r \<Rightarrow> showNum r
    | PosInf \<Rightarrow> ''Infinity''
    | NegInf \<Rightarrow> ''-Infinity''
    | NaN \<Rightarrow> ''NaN'')"

fun joinWith :: "string \<Rightarrow> string list \<Rightarrow> string" where
  "joinWith sep [] = []"
| "joinWith sep [x] = x"
| "joinWith sep (x # y # ys) = x @ sep @ joinWith sep (y # ys)"

text \<open>The text \<open>x,y\<close> of one position.\<close>

definition showPoint :: "(real \<Rightarrow> string) \<Rightarrow> wsipoint \<Rightarrow> string" where
  "showPoint showNum c = showJsnum showNum (fst c) @ '','' @ showJsnum showNum (snd c)"

text \<open>sam-api.js: a \<open>polygon\<close> element over the first ring.\<close>

definition createSVGPathFromWSICoordinates ::
  "(real \<Rightarrow> string) \<Rightarrow> wsipoint list list \<Rightarrow> string" where
  "createSVGPathFromWSICoordinates showNum wsiCoordinates =
    (case wsiCoordinates of
      [] \<Rightarrow> []
    | cs # _ \<Rightarrow>
        if cs = [] then []
        else ''<svg><polygon points='' @ dquote @
             joinWith '' '' (map (showPoint showNum) cs) @
             dquote @ '' /></svg>'')"

text \<open>annotation-manager.js: a \<open>path\<close> element over the first ring.\<close>

definition createSVGPathFromWSICoordinates_am ::
  "(real \<Rightarrow> string) \<Rightarrow> wsipoint list list \<Rightarrow> string" where
  "createSVGPathFromWSICoordinates_am showNum coordinateRings =
    (case coordinateRings of
      [] \<Rightarrow> []
    | firstRing # _ \<Rightarrow>
        (case firstRing of
          [] \<Rightarrow> []
        | firstCoord # others \<Rightarrow>
            ''<svg><path d='' @ dquote @
            ''M '' @ showPoint showNum firstCoord @
            concat (map (\<lambda>c. '' L '' @ showPoint showNum c) others) @
            '' Z'' @ dquote @ ''></path></svg>''))"

section \<open>Annotations\<close>

text \<open>
  An annotation in the W3C format of the drawing library.  \<open>b_text\<close> is the
  \<open>value\<close> property of a body item when it is a string (\<open>None\<close> when it is
  missing or not a string); \<open>a_body = None\<close> is a body that is missing or not an
  array; \<open>a_samGenerated\<close> is \<open>samGenerated === true\<close>.
\<close>

record selector =
  sel_type :: string
  sel_text :: string

record target =
  tg_source :: "string option"
  tg_selector :: "selector option"

record bodyItem =
  b_type :: "string option"
  b_purpose :: "string option"
  b_text :: "string option"

record annotation =
  a_id :: string
  a_target :: "target option"
  a_body :: "bodyItem list option"
  a_samGenerated :: bool
  a_samTool :: "string option"

section \<open>sam-api.js: candidate selection\<close>

record geometry =
  g_type :: string
  g_coordinates :: "ring list option"

record properties =
  p_quality :: "real option"
  p_sam_model :: "string option"
  p_object_idx :: "real option"

text \<open>A number that may be \<open>Infinity\<close>: the \<open>calculatedArea\<close> of a feature.\<close>

datatype area = Finite real | Infinity

record feature =
  f_geometry :: "geometry option"
  f_properties :: "properties option"
  f_calculatedArea :: "area option"

subsection \<open>calculatePolygonArea\<close>

text \<open>The \<open>for\<close> loop, with the loop variable and the accumulator as arguments.\<close>

function shoelaceLoop :: "ring \<Rightarrow> nat \<Rightarrow> real \<Rightarrow> real" where
  "shoelaceLoop coordinates i acc =
    (if i < length coordinates then
       (let j = (i + 1) mod length coordinates
        in shoelaceLoop coordinates (i + 1)
             (acc + fst (coordinates ! i) * snd (coordinates ! j)
                  - fst (coordinates ! j) * snd (coordinates ! i)))
     else acc)"
  by pat_completeness auto
termination
  by (relation "measure (\<lambda>(coordinates, i, acc). length coordinates - i)") auto

declare shoelaceLoop.simps [simp del]

definition calculatePolygonArea :: "ring \<Rightarrow> real" where
  "calculatePolygonArea coordinates =
    (if length coordinates < 3 then 0 else \<bar>shoelaceLoop coordinates 0 0\<bar> / 2)"

text \<open>
  The shoelace formula as the specification names it: half the absolute value of the sum
  of the cross products of consecutive vertices, the last vertex followed by the first.
\<close>

definition shoelaceFormula :: "ring \<Rightarrow> real" where
  "shoelaceFormula ps =
    \<bar>\<Sum>i < length ps. fst (ps ! i) * snd (ps ! ((i + 1) mod length ps))
                       - fst (ps ! ((i + 1) mod length ps)) * snd (ps ! i)\<bar> / 2"

subsection \<open>Sorting by area\<close>

text \<open>
  The area the \<open>forEach\<close> stores in each feature: the area of the first ring, or
  \<open>Infinity\<close> when the feature has no geometry, no coordinates or no first ring.
\<close>

definition areaOf :: "feature \<Rightarrow> area" where
  "areaOf f =
    (case f_geometry f of
      None \<Rightarrow> Infinity
    | Some g \<Rightarrow>
        (case g_coordinates g of
          Some (coords0 # _) \<Rightarrow> Finite (calculatePolygonArea coords0)
        | _ \<Rightarrow> Infinity))"

definition withArea :: "feature \<Rightarrow> feature" where
  "withArea f = f\<lparr>f_calculatedArea := Some (areaOf f)\<rparr>"

text \<open>
  The comparator \<open>(a, b) => a.calculatedArea - b.calculatedArea\<close>, by the sign that
  matters to a sort: whether the difference is positive.  \<open>Infinity - Infinity\<close> is
  \<open>NaN\<close>, which a sort takes for 0.  A feature without the property gives \<open>NaN\<close>
  as well.
\<close>

definition areaGreater :: "area option \<Rightarrow> area option \<Rightarrow> bool" where
  "areaGreater a b =
    (case (a, b) of
      (Some (Finite x), Some (Finite y)) \<Rightarrow> x - y > 0
    | (Some Infinity, Some (Finite y)) \<Rightarrow> True
    | _ \<Rightarrow> False)"

text \<open>
  \<open>Array.prototype.sort\<close> is a stable sort; it is modelled as the stable insertion
  sort, which on a comparator that is consistent (as the one above is on areas) gives the
  one stable sorted order.
\<close>

fun insertBy :: "('a \<Rightarrow> 'a \<Rightarrow> bool) \<Rightarrow> 'a \<Rightarrow> 'a list \<Rightarrow> 'a list" where
  "insertBy gt x [] = [x]"
| "insertBy gt x (y # ys) = (if gt x y then y # insertBy gt x ys else x # y # ys)"

definition js_sort :: "('a \<Rightarrow> 'a \<Rightarrow> bool) \<Rightarrow> 'a list \<Rightarrow> 'a list" where
  "js_sort gt xs = foldr (insertBy gt) xs []"

definition sortByArea :: "feature list \<Rightarrow> feature list" where
  "sortByArea fs =
    js_sort (\<lambda>a b. areaGreater (f_calculatedArea a) (f_calculatedArea b)) (map withArea fs)"

subsection \<open>convertSAMResultToAnnotation\<close>

text \<open>
  The parsed response: a falsy value, an array of masks, an object with a \<open>features\<close>
  array, or anything else.
\<close>

datatype samResult =
  ResultFalsy
| ResultArray "feature list"
| ResultFeatures "feature list"
| ResultOther

text \<open>The \<open>||\<close> defaults of the array format.\<close>

definition defaultProperties :: "properties \<Rightarrow> properties" where
  "defaultProperties pr =
    \<lparr>p_quality = Some (case p_quality pr of None \<Rightarrow> 1 / 2 | Some q \<Rightarrow> if q = 0 then 1 / 2 else q),
     p_sam_model = Some (case p_sam_model pr of None \<Rightarrow> ''mobile-sam''
                          | Some m \<Rightarrow> if m = [] then ''mobile-sam'' else m),
     p_object_idx = Some (case p_object_idx pr of None \<Rightarrow> 0 | Some i \<Rightarrow> i)\<rparr>"

definition maskToFeature :: "feature \<Rightarrow> feature option" where
  "maskToFeature msk =
    (case (f_geometry msk, f_properties msk) of
      (Some g, Some pr) \<Rightarrow>
        Some \<lparr>f_geometry = Some g, f_properties = Some (defaultProperties pr),
              f_calculatedArea = None\<rparr>
    | _ \<Rightarrow> None)"

definition featuresOf :: "samResult \<Rightarrow> feature list option" where
  "featuresOf samResult =
    (case samResult of
      ResultArray masks \<Rightarrow> Some (List.map_filter maskToFeature masks)
    | ResultFeatures fs \<Rightarrow> Some fs
    | _ \<Rightarrow> None)"

text \<open>\<open>features[0]\<close> after the sort, when there is a feature at all.\<close>

definition bestFeature :: "feature list \<Rightarrow> feature option" where
  "bestFeature fs = (case sortByArea fs of [] \<Rightarrow> None | b # _ \<Rightarrow> Some b)"

text \<open>
  The annotation built from the SVG text: the spread of the original annotation with a
  new id, an \<open>SvgSelector\<close> and the fixed body.
\<close>

definition samAnnotationOf :: "string \<Rightarrow> string \<Rightarrow> annotation \<Rightarrow> annotation" where
  "samAnnotationOf newId svgPath originalAnnotation =
    originalAnnotation
      \<lparr>a_id := newId,
       a_target := Some \<lparr>tg_source = (case a_target originalAnnotation of
                                         None \<Rightarrow> None | Some t \<Rightarrow> tg_source t),
                         tg_selector = Some \<lparr>sel_type = ''SvgSelector'', sel_text = svgPath\<rparr>\<rparr>,
       a_body := Some [\<lparr>b_type = Some ''TextualBody'', b_purpose = None,
                         b_text = Some ''Annotation''\<rparr>]\<rparr>"

text \<open>
  The calls \<open>transformCanvasToWSICoordinates\<close> and \<open>createSVGPathFromWSICoordinates\<close>
  go to global functions that two scripts of the repository each declare; the one bound
  is the one of the script loaded last, which the page that loads them decides.  They are
  the parameters \<open>xform\<close> and \<open>mkPath\<close>.  \<open>newId\<close> is the text
  \<open>'sam-' + Date.now() + '-' + random\<close>.  Every \<open>return null\<close> of the source, and
  the \<open>catch\<close> of its \<open>try\<close> block, is \<open>None\<close>.
\<close>

definition convertSAMResultToAnnotation ::
  "(ring list \<Rightarrow> imageInfo \<Rightarrow> js_error + wsipoint list list option) \<Rightarrow>
   (wsipoint list list \<Rightarrow> string) \<Rightarrow> string \<Rightarrow>
   samResult \<Rightarrow> annotation \<Rightarrow> imageInfo \<Rightarrow> annotation option" where
  "convertSAMResultToAnnotation xform mkPath newId samResult originalAnnotation imageInfo =
    (case featuresOf samResult of
      None \<Rightarrow> None
    | Some features \<Rightarrow>
        (case bestFeature features of
          None \<Rightarrow> None
        | Some best \<Rightarrow>
            (case f_geometry best of
              None \<Rightarrow> None
            | Some g \<Rightarrow>
                (case g_coordinates g of
                  None \<Rightarrow> None
                | Some coordinates \<Rightarrow>
                    (case xform coordinates imageInfo of
                      Inl _ \<Rightarrow> None
                    | Inr None \<Rightarrow> None
                    | Inr (Some wsiCoordinatesForDisplay) \<Rightarrow>
                        Some (samAnnotationOf newId (mkPath wsiCoordinatesForDisplay)
                                originalAnnotation))))))"

section \<open>annotation-manager.js: classification and the tag store\<close>

subsection \<open>String helpers\<close>

text \<open>
  A string is the list of the UTF-8 bytes of its text.  \<open>toLowerCase\<close> is used only
  to search a value for the two ASCII keywords \<open>sam\<close> and \<open>segment anything\<close>, and
  it lowers the ASCII letters only: a letter outside ASCII lowers to letters outside
  ASCII (or, for U+0130, to \<open>i\<close> followed by U+0307, which completes neither
  keyword), so the searches give what they give in JavaScript.
\<close>

definition startsWith :: "string \<Rightarrow> string \<Rightarrow> bool" where
  "startsWith s p = (take (length p) s = p)"

fun includes_str :: "string \<Rightarrow> string \<Rightarrow> bool" where
  "includes_str [] sub = (sub = [])"
| "includes_str (c # cs) sub = (startsWith (c # cs) sub \<or> includes_str cs sub)"

definition lowerChar :: "char \<Rightarrow> char" where
  "lowerChar c =
    (case map_of (zip ''ABCDEFGHIJKLMNOPQRSTUVWXYZ'' ''abcdefghijklmnopqrstuvwxyz'') c of
      None \<Rightarrow> c
    | Some l \<Rightarrow> l)"

definition toLowerCase :: "string \<Rightarrow> string" where
  "toLowerCase s = map lowerChar s"

text \<open>
  The UTF-8 encodings of the characters \<open>String.prototype.trim\<close> strips: the white
  space and line terminators of ECMAScript (U+0009 to U+000D, U+0020, U+00A0, U+1680,
  U+2000 to U+200A, U+2028, U+2029, U+202F, U+205F, U+3000, U+FEFF).
\<close>

definition whiteSpaceUtf8 :: "string list" where
  "whiteSpaceUtf8 =
    [[CHR 0x09], [CHR 0x0A], [CHR 0x0B], [CHR 0x0C], [CHR 0x0D], [CHR 0x20],
     [CHR 0xC2, CHR 0xA0],
     [CHR 0xE1, CHR 0x9A, CHR 0x80],
     [CHR 0xE2, CHR 0x80, CHR 0x80], [CHR 0xE2, CHR 0x80, CHR 0x81],
     [CHR 0xE2, CHR 0x80, CHR 0x82], [CHR 0xE2, CHR 0x80, CHR 0x83],
     [CHR 0xE2, CHR 0x80, CHR 0x84], [CHR 0xE2, CHR 0x80, CHR 0x85],
     [CHR 0xE2, CHR 0x80, CHR 0x86], [CHR 0xE2, CHR 0x80, CHR 0x87],
     [CHR 0xE2, CHR 0x80, CHR 0x88], [CHR 0xE2, CHR 0x80, CHR 0x89],
     [CHR 0xE2, CHR 0x80, CHR 0x8A],
     [CHR 0xE2, CHR 0x80, CHR 0xA8], [CHR 0xE2, CHR 0x80, CHR 0xA9],
     [CHR 0xE2, CHR 0x80, CHR 0xAF],
     [CHR 0xE2, CHR 0x81, CHR 0x9F],
     [CHR 0xE3, CHR 0x80, CHR 0x80],
     [CHR 0xEF, CHR 0xBB, CHR 0xBF]]"

text \<open>Removes from the front of \<open>s\<close> every leading occurrence of one of \<open>ws\<close>.\<close>

function stripLeading :: "string list \<Rightarrow> string \<Rightarrow> string" where
  "stripLeading ws s =
    (case List.find (\<lambda>w. w \<noteq> [] \<and> startsWith s w) ws of
      None \<Rightarrow> s
    | Some w \<Rightarrow> stripLeading ws (drop (length w) s))"
  by pat_completeness auto
termination
proof (relation "measure (\<lambda>(ws, s). length s)")
  show "wf (measure (\<lambda>(ws, s). length s))" by simp
next
  fix ws :: "string list" and s w :: string
  assume "List.find (\<lambda>w. w \<noteq> [] \<and> startsWith s w) ws = Some w"
  hence w: "w \<noteq> []" and t: "take (length w) s = w"
    by (auto simp: find_Some_iff startsWith_def)
  from w t have "s \<noteq> []" by auto
  with w show "((ws, drop (length w) s), ws, s) \<in> measure (\<lambda>(ws, s). length s)"
    by (cases w; cases s) simp_all
qed

declare stripLeading.simps [simp del]

text \<open>
  \<open>trim\<close>: the white space is stripped from the front, and from the back by
  stripping the reversed encodings from the front of the reversed string.
\<close>

definition trim :: "string \<Rightarrow> string" where
  "trim s = rev (stripLeading (map rev whiteSpaceUtf8) (rev (stripLeading whiteSpaceUtf8 s)))"

subsection \<open>getAnnotationTags and isAnnotationFromSAMEnhanced\<close>

text \<open>
  The tags the loop of \<open>getAnnotationTags\<close> collects: the trimmed value of every body
  item whose value is a string with a non-empty trim and whose purpose is \<open>tagging\<close>.
\<close>

definition explicitTags :: "annotation \<Rightarrow> string list" where
  "explicitTags ann =
    (case a_body ann of
      None \<Rightarrow> []
    | Some items \<Rightarrow>
        List.map_filter
          (\<lambda>item. case b_text item of
                     None \<Rightarrow> None
                   | Some v \<Rightarrow>
                       if v \<noteq> [] \<and> trim v \<noteq> [] \<and> b_purpose item = Some ''tagging''
                       then Some (trim v) else None)
          items)"

text \<open>The five methods, in the order of the source; \<open>tool\<close> is the global \<open>currentTool\<close>.\<close>

definition isAnnotationFromSAMEnhanced :: "string \<Rightarrow> annotation \<Rightarrow> bool" where
  "isAnnotationFromSAMEnhanced tool ann =
    (if a_id ann \<noteq> [] \<and> startsWith (a_id ann) ''sam-'' then True
     else if a_samGenerated ann then True
     else if (case a_samTool ann of None \<Rightarrow> False
              | Some t \<Rightarrow> t \<noteq> [] \<and> startsWith t ''sam-'') then True
     else if tool \<noteq> [] \<and> startsWith tool ''sam-'' then True
     else (case a_body ann of
             None \<Rightarrow> False
           | Some items \<Rightarrow>
               list_ex
                 (\<lambda>item. case b_text item of
                            None \<Rightarrow> False
                          | Some v \<Rightarrow>
                              v \<noteq> [] \<and>
                              (includes_str (toLowerCase v) ''sam'' \<or>
                               includes_str (toLowerCase v) ''segment anything''))
                 items))"

text \<open>
  On typed annotations neither \<open>try\<close> block of the two functions can catch anything,
  so the default tag \<open>Others\<close> of the \<open>catch\<close> is not a branch of the model.
\<close>

definition getAnnotationTags :: "string \<Rightarrow> annotation \<Rightarrow> string list" where
  "getAnnotationTags tool ann =
    (if explicitTags ann \<noteq> [] then explicitTags ann
     else [if isAnnotationFromSAMEnhanced tool ann then ''SAM'' else ''Manual''])"

subsection \<open>addAnnotationToList\<close>

text \<open>
  The global \<open>annotations\<close>: a plain object from tag to the array of the annotations
  filed under it.  The map holds the object's own properties.  A read
  \<open>annotations[tag]\<close> of a tag that is not an own property goes on to
  \<open>Object.prototype\<close>, whose properties are listed here; each of them is truthy and
  has no \<open>push\<close>.  The DOM updates of the list are not modelled.
\<close>

type_synonym tagStore = "string \<Rightarrow> annotation list option"

definition objectPrototypeKeys :: "string list" where
  "objectPrototypeKeys =
    [''constructor'', ''__defineGetter__'', ''__defineSetter__'', ''hasOwnProperty'',
     ''__lookupGetter__'', ''__lookupSetter__'', ''isPrototypeOf'',
     ''propertyIsEnumerable'', ''toString'', ''valueOf'', ''__proto__'',
     ''toLocaleString'']"

text \<open>
  The body of the \<open>forEach\<close> for one tag: \<open>if (!annotations[tag]) annotations[tag] =
  []\<close>, then \<open>annotations[tag].push(annotation)\<close>.  For a tag that names a property
  of \<open>Object.prototype\<close> the test finds a truthy value, no array is created, and the
  call of \<open>push\<close> throws.
\<close>

definition pushUnder :: "annotation \<Rightarrow> tagStore \<Rightarrow> string \<Rightarrow> js_error + tagStore" where
  "pushUnder ann store tag =
    (case store tag of
      Some l \<Rightarrow> Inr (store(tag \<mapsto> l @ [ann]))
    | None \<Rightarrow>
        if tag \<in> set objectPrototypeKeys then Inl TypeError
        else Inr (store(tag \<mapsto> [ann])))"

text \<open>
  The \<open>forEach\<close> over the tags.  A throw ends the loop; what was filed before it
  stays filed.  The result is the store and the error thrown, if any.
\<close>

fun fileUnderTags :: "annotation \<Rightarrow> string list \<Rightarrow> tagStore \<Rightarrow> tagStore \<times> js_error option" where
  "fileUnderTags ann [] store = (store, None)"
| "fileUnderTags ann (tag # tags) store =
    (case pushUnder ann store tag of
      Inl e \<Rightarrow> (store, Some e)
    | Inr store' \<Rightarrow> fileUnderTags ann tags store')"

definition addAnnotationToList ::
  "string \<Rightarrow> annotation \<Rightarrow> tagStore \<Rightarrow> tagStore \<times> js_error option" where
  "addAnnotationToList tool ann store = fileUnderTags ann (getAnnotationTags tool ann) store"

section \<open>Application state\<close>

text \<open>
  The globals the handlers share.  \<open>st_heap\<close> holds the image-info objects by
  address, so that \<open>window.currentImageInfo\<close> and the \<open>imageInfo\<close> constant of a
  running \<open>processSAMPrompt\<close> can be the same object.  \<open>st_anno\<close> is the list of the
  annotations the drawing library holds.
\<close>

record appState =
  st_viewer :: "viewer option"
  st_heap :: "nat \<Rightarrow> imageInfo option"
  st_next :: nat
  st_currentImageInfo :: "nat option"
  st_currentTool :: string
  st_samConnected :: bool
  st_samLiveMode :: bool
  st_anno :: "annotation list"
  st_annotations :: tagStore

text \<open>
  Modelled from the spec: the drawing library (Annotorious) is not part of the
  repository.  Its \<open>removeAnnotation\<close> removes the id if present and is a no-op
  otherwise; its \<open>addAnnotation\<close> inserts, replacing an annotation of the same id.
\<close>

definition anno_removeAnnotation :: "string \<Rightarrow> annotation list \<Rightarrow> annotation list" where
  "anno_removeAnnotation i xs = filter (\<lambda>a. a_id a \<noteq> i) xs"

definition anno_addAnnotation :: "annotation \<Rightarrow> annotation list \<Rightarrow> annotation list" where
  "anno_addAnnotation a xs = filter (\<lambda>b. a_id b \<noteq> a_id a) xs @ [a]"

text \<open>
  \<open>ensureAddAnnotation\<close> with the annotation manager loaded: the new state, and the
  error it throws, if any.
\<close>

definition ensureAddAnnotation :: "annotation \<Rightarrow> appState \<Rightarrow> appState \<times> js_error option" where
  "ensureAddAnnotation ann st =
    (case addAnnotationToList (st_currentTool st) ann (st_annotations st) of
      (store, err) \<Rightarrow> (st\<lparr>st_annotations := store\<rparr>, err))"

section \<open>sam-api.js: capture\<close>

definition getCurrentImageData :: "viewer option \<Rightarrow> imageInfo option" where
  "getCurrentImageData vw =
    (case vw of
      None \<Rightarrow> None
    | Some v \<Rightarrow>
        (let currentViewportBounds = getCurrentViewportBounds (Some v);
             containerSize = vw_containerSize v;
             targetWidth = js_round (fst containerSize);
             targetHeight = js_round (snd containerSize)
         in case vw_canvasData v of
              None \<Rightarrow> None
            | Some base64Data \<Rightarrow>
                Some \<lparr>ii_imageData = base64Data, ii_width = targetWidth,
                      ii_height = targetHeight,
                      ii_viewportBounds = currentViewportBounds\<rparr>))"

section \<open>viewer-core.js: viewport tracking\<close>

text \<open>
  The \<open>animation-finish\<close> handler of \<open>setupDynamicImageInfoUpdates\<close>: it writes the
  live bounds into the object \<open>window.currentImageInfo\<close> refers to.
\<close>

definition onAnimationFinish :: "appState \<Rightarrow> appState" where
  "onAnimationFinish st =
    (case st_currentImageInfo st of
      None \<Rightarrow> st
    | Some a \<Rightarrow>
        (case st_heap st a of
          None \<Rightarrow> st
        | Some obj \<Rightarrow>
            (case getCurrentViewportBounds (st_viewer st) of
              None \<Rightarrow> st
            | Some newViewportBounds \<Rightarrow>
                st\<lparr>st_heap := (st_heap st)
                       (a \<mapsto> obj\<lparr>ii_viewportBounds := Some newViewportBounds\<rparr>)\<rparr>)))"

text \<open>A pan or zoom that brings the viewer to the state \<open>v\<close>, and the event at its end.\<close>

definition panZoom :: "viewer \<Rightarrow> appState \<Rightarrow> appState" where
  "panZoom v st = onAnimationFinish (st\<lparr>st_viewer := Some v\<rparr>)"

text \<open>A sequence of pans and zooms, each with its event.\<close>

definition panZooms :: "viewer list \<Rightarrow> appState \<Rightarrow> appState" where
  "panZooms vs st = foldl (\<lambda>s v. panZoom v s) st vs"

section \<open>sam-api.js: processSAMPrompt\<close>

record samPayload =
  pl_type :: string
  pl_b64img :: string
  pl_multimask_output :: bool
  pl_point_coords :: "(real option \<times> real option) list option"
  pl_point_labels :: "real list option"
  pl_bbox :: "real option list option"

definition num_add :: "real option \<Rightarrow> real option \<Rightarrow> real option" where
  "num_add a b = (case (a, b) of (Some x, Some y) \<Rightarrow> Some (x + y) | _ \<Rightarrow> None)"

text \<open>
  The payload.  When the forward transform has returned \<open>null\<close>, reading
  \<open>canvasCoords.x\<close> throws.
\<close>

definition samPayloadOf ::
  "string \<Rightarrow> imageInfo \<Rightarrow> canvasCoords option \<Rightarrow> js_error + samPayload" where
  "samPayloadOf tool imageInfo canvasCoords =
    (let samPayload = \<lparr>pl_type = ''vit_h'', pl_b64img = ii_imageData imageInfo,
                        pl_multimask_output = False, pl_point_coords = None,
                        pl_point_labels = None, pl_bbox = None\<rparr>
     in if tool = ''sam-point'' then
          (case canvasCoords of
            None \<Rightarrow> Inl TypeError
          | Some c \<Rightarrow> Inr (samPayload\<lparr>pl_point_coords := Some [(cc_x c, cc_y c)],
                                      pl_point_labels := Some [1]\<rparr>))
        else if tool = ''sam-rect'' then
          (case canvasCoords of
            None \<Rightarrow> Inl TypeError
          | Some c \<Rightarrow> Inr (samPayload\<lparr>pl_bbox := Some [cc_x c, cc_y c,
                                        num_add (cc_x c) (cc_width c),
                                        num_add (cc_y c) (cc_height c)]\<rparr>))
        else Inr samPayload)"

text \<open>The errors \<open>processSAMPrompt\<close> throws, which reject its promise.\<close>

datatype samError =
  NotConnected
| CaptureFailed
| NoCoordinates
| Thrown js_error
| NetworkFailure
| RequestFailed
| MalformedJson

text \<open>
  The first statements of \<open>processSAMPrompt\<close>: the capture, and the assignment of
  the captured object to \<open>window.currentImageInfo\<close>.  The object is allocated at a
  fresh address; the global and the constant \<open>imageInfo\<close> of the running call both
  hold that address.  The result is the new state, the address and the object as
  captured; \<open>None\<close>: the capture failed.
\<close>

definition captureSnapshot :: "appState \<Rightarrow> (appState \<times> nat \<times> imageInfo) option" where
  "captureSnapshot st =
    (case getCurrentImageData (st_viewer st) of
      None \<Rightarrow> None
    | Some imageInfo \<Rightarrow>
        (let a = st_next st
         in Some (st\<lparr>st_heap := (st_heap st)(a \<mapsto> imageInfo), st_next := a + 1,
                     st_currentImageInfo := Some a\<rparr>, a, imageInfo)))"

text \<open>
  What can happen to the image-info objects between a capture and the arrival of its
  response: a pan or zoom with its event, or the capture of a further
  \<open>processSAMPrompt\<close>, which leaves the state as it is when it fails.
\<close>

datatype event = PanZoom viewer | FurtherCapture

definition step :: "event \<Rightarrow> appState \<Rightarrow> appState" where
  "step ev st =
    (case ev of
      PanZoom v \<Rightarrow> panZoom v st
    | FurtherCapture \<Rightarrow>
        (case captureSnapshot st of None \<Rightarrow> st | Some (st', a, imageInfo) \<Rightarrow> st'))"

definition runEvents :: "event list \<Rightarrow> appState \<Rightarrow> appState" where
  "runEvents evs st = foldl (\<lambda>s ev. step ev s) st evs"

text \<open>
  \<open>processSAMPrompt\<close> up to the call of \<open>fetch\<close>.  \<open>fwd\<close> is the global
  \<open>transformWSIToCanvasCoordinates\<close> (declared by two scripts, like \<open>xform\<close>
  above), and \<open>extract\<close> is \<open>extractCoordinatesFromAnnotation\<close>, whose SVG and
  fragment parsing is not modelled.
\<close>

definition samPromptStart ::
  "(appState \<Rightarrow> coords \<Rightarrow> imageInfo \<Rightarrow> js_error + canvasCoords option) \<Rightarrow>
   (annotation \<Rightarrow> coords option) \<Rightarrow> annotation \<Rightarrow> appState \<Rightarrow>
   appState \<times> (samError + samPayload \<times> nat)" where
  "samPromptStart fwd extract promptAnnotation st =
    (if \<not> st_samConnected st then (st, Inl NotConnected)
     else
       (case captureSnapshot st of
         None \<Rightarrow> (st, Inl CaptureFailed)
       | Some (st1, a, imageInfo) \<Rightarrow>
           (case extract promptAnnotation of
             None \<Rightarrow> (st1, Inl NoCoordinates)
           | Some cs \<Rightarrow>
               (case fwd st1 cs imageInfo of
                 Inl e \<Rightarrow> (st1, Inl (Thrown e))
               | Inr canvasCoords \<Rightarrow>
                   (case samPayloadOf (st_currentTool st1) imageInfo canvasCoords of
                     Inl e \<Rightarrow> (st1, Inl (Thrown e))
                   | Inr samPayload \<Rightarrow> (st1, Inr (samPayload, a)))))))"

text \<open>
  What \<open>fetch\<close> and \<open>response.json()\<close> give: a rejection, or a response with its
  \<open>ok\<close> flag and its parsed body (\<open>None\<close> when the body is not JSON).
\<close>

datatype fetchResult = FetchRejected | FetchResponse bool "samResult option"

text \<open>
  \<open>processSAMPrompt\<close> from the response on.  \<open>imageInfo\<close> is read from the heap at
  the address \<open>a\<close> at this moment.  Objects are never removed from the heap, so the
  branch for a missing object is not reached.
\<close>

definition samPromptFinish ::
  "(appState \<Rightarrow> ring list \<Rightarrow> imageInfo \<Rightarrow> js_error + wsipoint list list option) \<Rightarrow>
   (wsipoint list list \<Rightarrow> string) \<Rightarrow> string \<Rightarrow> annotation \<Rightarrow> nat \<Rightarrow>
   fetchResult \<Rightarrow> appState \<Rightarrow> samError + annotation option" where
  "samPromptFinish xform mkPath newId promptAnnotation a response st =
    (case response of
      FetchRejected \<Rightarrow> Inl NetworkFailure
    | FetchResponse ok body \<Rightarrow>
        if ok then
          (case body of
            None \<Rightarrow> Inl MalformedJson
          | Some samResult \<Rightarrow>
              (case st_heap st a of
                None \<Rightarrow> Inl (Thrown TypeError)
              | Some imageInfo \<Rightarrow>
                  Inr (convertSAMResultToAnnotation (xform st) mkPath newId samResult
                         promptAnnotation imageInfo)))
        else Inl RequestFailed)"

text \<open>
  The bindings of sam-api.js itself, and those of coordinate-transforms.js for the
  forward direction.
\<close>

definition fwd_sam :: "appState \<Rightarrow> coords \<Rightarrow> imageInfo \<Rightarrow> js_error + canvasCoords option" where
  "fwd_sam st cs imageInfo = transformWSIToCanvasCoordinates cs imageInfo"

definition fwd_ct :: "appState \<Rightarrow> coords \<Rightarrow> imageInfo \<Rightarrow> js_error + canvasCoords option" where
  "fwd_ct st cs imageInfo =
    (let r = transformWSIToCanvasCoordinates_ct (st_viewer st)
               (Option.bind (st_currentImageInfo st) (st_heap st)) cs (Some imageInfo)
     in Inr (Some \<lparr>cc_x = Some (c_x r), cc_y = Some (c_y r),
                    cc_width = c_width r, cc_height = c_height r\<rparr>))"

definition xform_sam ::
  "appState \<Rightarrow> ring list \<Rightarrow> imageInfo \<Rightarrow> js_error + wsipoint list list option" where
  "xform_sam st coordinates imageInfo = transformCanvasToWSICoordinates coordinates imageInfo"

section \<open>viewer-core.js: the createAnnotation handler\<close>

definition samLiveEnabled :: "appState \<Rightarrow> bool" where
  "samLiveEnabled st = (startsWith (st_currentTool st) ''sam-'' \<and> st_samConnected st \<and> st_samLiveMode st)"

text \<open>
  The handler up to the call of \<open>fetch\<close>.  \<open>now\<close> is the text of \<open>Date.now()\<close>.
  When the condition is false the annotation is filed at once and no request starts.
\<close>

definition onCreateAnnotation ::
  "(appState \<Rightarrow> coords \<Rightarrow> imageInfo \<Rightarrow> js_error + canvasCoords option) \<Rightarrow>
   (annotation \<Rightarrow> coords option) \<Rightarrow> string \<Rightarrow> annotation \<Rightarrow> appState \<Rightarrow>
   appState \<times> (samError + samPayload \<times> nat) option" where
  "onCreateAnnotation fwd extract now ann st =
    (if samLiveEnabled st then
       (let tempAnnotation = ann\<lparr>a_id := ''temp-'' @ now\<rparr>
        in case samPromptStart fwd extract tempAnnotation st of
             (st1, r) \<Rightarrow> (st1, Some r))
     else (fst (ensureAddAnnotation ann st), None))"

text \<open>
  The transfer of the popup data in the \<open>then\<close> callback: a non-empty body of the
  drawn annotation replaces the body of the service's annotation.
\<close>

definition bodyCarried :: "annotation \<Rightarrow> annotation \<Rightarrow> annotation" where
  "bodyCarried ann samAnnotation =
    (case a_body ann of
      Some (b # bs) \<Rightarrow> samAnnotation\<lparr>a_body := a_body ann\<rparr>
    | _ \<Rightarrow> samAnnotation)"

text \<open>
  The \<open>catch\<close> callback: it files the annotation the user drew.  An error thrown
  here is not caught by anything.
\<close>

definition onSamRejected :: "annotation \<Rightarrow> appState \<Rightarrow> appState" where
  "onSamRejected ann st = fst (ensureAddAnnotation ann st)"

text \<open>
  The chain \<open>processSAMPrompt(...).then(...).catch(...)\<close>: \<open>ann\<close> is the annotation
  the user drew, \<open>outcome\<close> what \<open>processSAMPrompt\<close> settled with.  The \<open>catch\<close>
  callback runs when \<open>processSAMPrompt\<close> rejects and also when the \<open>then\<close>
  callback throws.  Neither callback looks up whether the drawn annotation is still in
  the drawing layer.
\<close>

definition onSamSettled :: "annotation \<Rightarrow> samError + annotation option \<Rightarrow> appState \<Rightarrow> appState" where
  "onSamSettled ann outcome st =
    (case outcome of
      Inr (Some samAnnotation) \<Rightarrow>
        (case ensureAddAnnotation (bodyCarried ann samAnnotation)
                (st\<lparr>st_anno := anno_addAnnotation (bodyCarried ann samAnnotation)
                                  (anno_removeAnnotation (a_id ann) (st_anno st))\<rparr>) of
          (st', None) \<Rightarrow> st'
        | (st', Some e) \<Rightarrow> onSamRejected ann st')
    | Inr None \<Rightarrow>
        (case ensureAddAnnotation ann st of
          (st', None) \<Rightarrow> st'
        | (st', Some e) \<Rightarrow> onSamRejected ann st')
    | Inl e \<Rightarrow> onSamRejected ann st)"

section \<open>The specification's reading of the selection\<close>

text \<open>The order on areas: every finite area is below \<open>Infinity\<close>.\<close>

definition area_le :: "area \<Rightarrow> area \<Rightarrow> bool" where
  "area_le a b =
    (case (a, b) of
      (Finite x, Finite y) \<Rightarrow> x \<le> y
    | (_, Infinity) \<Rightarrow> True
    | (Infinity, Finite y) \<Rightarrow> False)"

text \<open>
  The area of a candidate as the specification words it: the shoelace formula on the
  polygon's outer ring; a candidate without a ring has no finite area.
\<close>

definition shoelaceArea :: "feature \<Rightarrow> area" where
  "shoelaceArea f =
    (case f_geometry f of
      None \<Rightarrow> Infinity
    | Some g \<Rightarrow>
        (case g_coordinates g of
          Some (outer # _) \<Rightarrow> Finite (shoelaceFormula outer)
        | _ \<Rightarrow> Infinity))"

text \<open>
  The descriptor a snapshot object carries after a history, in the words of the
  amended reading: \<open>b\<close> is what it carries now and \<open>vw\<close> the viewer now.  Each pan
  or zoom that finishes replaces it by the bounds of the viewport then; the first further
  capture that succeeds ends this, and the descriptor stays what it is at that moment.
\<close>

fun descriptorAfter ::
  "viewportBounds option \<Rightarrow> viewer option \<Rightarrow> event list \<Rightarrow> viewportBounds option" where
  "descriptorAfter b vw [] = b"
| "descriptorAfter b vw (PanZoom v # evs) =
     descriptorAfter (getCurrentViewportBounds (Some v)) (Some v) evs"
| "descriptorAfter b vw (FurtherCapture # evs) =
     (if getCurrentImageData vw = None then descriptorAfter b vw evs else b)"



text \<open>
  The invariant of the histories: the snapshot at address \<open>a\<close> is allocated, and
  \<open>window.currentImageInfo\<close> refers to an allocated object.
\<close>

definition historyInv :: "nat \<Rightarrow> appState \<Rightarrow> bool" where
  "historyInv a st =
    (a < st_next st \<and> st_heap st a \<noteq> None \<and>
     (\<exists>c cur. st_currentImageInfo st = Some c \<and> c < st_next st \<and> st_heap st c = Some cur))"

section \<open>Example data\<close>

text \<open>
  The descriptor of the specification's scenario: offset (1000, 2000), visible region
  500 by 500 image pixels, downsample 2, on a capture of \<open>w\<close> by \<open>h\<close> pixels.
\<close>

definition scenarioInfo :: "real \<Rightarrow> real \<Rightarrow> imageInfo" where
  "scenarioInfo w h =
    \<lparr>ii_imageData = [], ii_width = w, ii_height = h,
     ii_viewportBounds = Some \<lparr>vb_x = 1000, vb_y = 2000, vb_width = 500, vb_height = 500,
                               vb_downsample = Some 2\<rparr>\<rparr>"

text \<open>A viewer that shows that region at zoom 1/2 in a container of 250 by 250 pixels.\<close>

definition exampleViewer :: viewer where
  "exampleViewer =
    \<lparr>vw_bounds = (0, 0, 1, 1), vw_zoom = 1 / 2,
     vw_viewportToImage = (\<lambda>p. (1000 + 500 * fst p, 2000 + 500 * snd p)),
     vw_containerSize = (250, 250), vw_canvasData = Some []\<rparr>"

text \<open>The three candidates of the specification: two squares and a triangle.\<close>

definition polygonFeature :: "ring list \<Rightarrow> feature" where
  "polygonFeature rings =
    \<lparr>f_geometry = Some \<lparr>g_type = ''Polygon'', g_coordinates = Some rings\<rparr>,
     f_properties = None, f_calculatedArea = None\<rparr>"

definition square400 :: feature where
  "square400 = polygonFeature [[(0, 0), (20, 0), (20, 20), (0, 20)]]"

definition square100 :: feature where
  "square100 = polygonFeature [[(0, 0), (10, 0), (10, 10), (0, 10)]]"

definition triangle50 :: feature where
  "triangle50 = polygonFeature [[(0, 0), (10, 0), (0, 10)]]"

text \<open>Two annotations a manual tool leaves: one without a body, one with a comment.\<close>

definition plainAnnotation :: annotation where
  "plainAnnotation =
    \<lparr>a_id = ''#c3d4'', a_target = None, a_body = None,
     a_samGenerated = False, a_samTool = None\<rparr>"

definition commentedAnnotation :: annotation where
  "commentedAnnotation =
    \<lparr>a_id = ''#a1b2'', a_target = None,
     a_body = Some [\<lparr>b_type = Some ''TextualBody'', b_purpose = Some ''commenting'',
                     b_text = Some ''Tumor''\<rparr>],
     a_samGenerated = False, a_samTool = None\<rparr>"

text \<open>A feature with every ring after the first removed from its polygon.\<close>

definition firstRingOnly :: "feature \<Rightarrow> feature" where
  "firstRingOnly f =
    f\<lparr>f_geometry :=
         map_option (\<lambda>g. g\<lparr>g_coordinates := map_option (take 1) (g_coordinates g)\<rparr>)
           (f_geometry f)\<rparr>"

text \<open>
  A box the user drew with the SAM rectangle tool, the annotation the service's answer
  would become, and the state of the application at that moment: the viewer of the
  scenario, the service connected, live mode on, the box in the drawing layer, nothing
  filed yet.
\<close>

definition boxAnnotation :: annotation where
  "boxAnnotation =
    \<lparr>a_id = ''#e5f6'',
     a_target = Some \<lparr>tg_source = Some ''slide'',
                       tg_selector = Some \<lparr>sel_type = ''FragmentSelector'',
                                            sel_text = ''xywh=pixel:1100,2100,80,60''\<rparr>\<rparr>,
     a_body = None, a_samGenerated = False, a_samTool = None\<rparr>"


definition exampleState :: appState where
  "exampleState =
    \<lparr>st_viewer = Some exampleViewer, st_heap = (\<lambda>a. None), st_next = 0,
     st_currentImageInfo = None, st_currentTool = ''sam-rect'',
     st_samConnected = True, st_samLiveMode = True,
     st_anno = [boxAnnotation], st_annotations = (\<lambda>t. None)\<rparr>"

text \<open>The same viewer after a pan to the region with offset (3000, 4000).\<close>

definition movedViewer :: viewer where
  "movedViewer =
    exampleViewer\<lparr>vw_viewportToImage := (\<lambda>p. (3000 + 500 * fst p, 4000 + 500 * snd p))\<rparr>"

text \<open>The viewer after a second pan, to the region with offset (5000, 6000).\<close>

definition thirdViewer :: viewer where
  "thirdViewer =
    exampleViewer\<lparr>vw_viewportToImage := (\<lambda>p. (5000 + 500 * fst p, 6000 + 500 * snd p))\<rparr>"

text \<open>
  A polygon with a hole, as the service returns it: the outer ring and one inner ring, in
  capture pixels.
\<close>

definition holedFeature :: feature where
  "holedFeature =
    polygonFeature [[(0, 0), (125, 0), (0, 125)], [(10, 10), (20, 10), (10, 20)]]"

text \<open>The text of the numbers the examples print, in place of \<open>Number::toString\<close>.\<close>

definition showExample :: "real \<Rightarrow> string" where
  "showExample n =
    (if n = 1000 then ''1000'' else if n = 1250 then ''1250''
     else if n = 2000 then ''2000'' else if n = 2250 then ''2250'' else ''?'')"


text \<open>A response polygon whose first ring is empty.\<close>

definition emptyRingFeature :: feature where
  "emptyRingFeature = polygonFeature [[]]"

text \<open>What the capture in \<open>exampleState\<close> allocates, and the state after it.\<close>

definition capturedInfo :: imageInfo where
  "capturedInfo =
    \<lparr>ii_imageData = [], ii_width = 250, ii_height = 250,
     ii_viewportBounds = Some \<lparr>vb_x = 1000, vb_y = 2000, vb_width = 500, vb_height = 500,
                               vb_downsample = None\<rparr>\<rparr>"

definition capturedState :: appState where
  "capturedState =
    exampleState\<lparr>st_heap := (\<lambda>a. None)(0 \<mapsto> capturedInfo), st_next := 1,
                  st_currentImageInfo := Some 0\<rparr>"



section \<open>The QuPath-style transforms\<close>

lemma forward_main:
  assumes "ii_viewportBounds (case wci of Some c \<Rightarrow> c | None \<Rightarrow> info) = Some b"
      and "vb_downsample b = Some d" and "d \<noteq> 0"
  shows "transformCoordinatesToCanvasQuPathStyle (Some v) wci cs (Some info) =
     canvasCoordsOf d b info (imagePixelCoordsOf v cs) cs"
  unfolding transformCoordinatesToCanvasQuPathStyle_def
  using assms by simp

lemma canvasCoordsOf_x:
  "c_x (canvasCoordsOf d b info ip cs) =
     max 0 (min (ii_width info - 1) (js_floor ((fst ip - vb_x b) / d)))"
  by (simp add: canvasCoordsOf_def Let_def)

lemma canvasCoordsOf_y:
  "c_y (canvasCoordsOf d b info ip cs) =
     max 0 (min (ii_height info - 1) (js_floor ((snd ip - vb_y b) / d)))"
  by (simp add: canvasCoordsOf_def Let_def)

lemma inverse_main:
  assumes "ii_viewportBounds (case wci of Some c \<Rightarrow> c | None \<Rightarrow> info) = Some b"
      and "vb_downsample b = Some d" and "d \<noteq> 0"
  shows "transformCanvasCoordinatesToWSIQuPathStyle (Some v) wci (Arr elems) (Some info) =
     Inr (reverseDispatch (transformCoordinate d (vb_x b) (vb_y b)) elems)"
  unfolding transformCanvasCoordinatesToWSIQuPathStyle_def
  using assms by (cases wci) simp_all

lemma reverseDispatch_point:
  "reverseDispatch (transformCoordinate d xo yo) [Arr [Arr [Num cx, Num cy]]] =
     Some (Arr [Arr [Arr [Num (cx * d + xo), Num (cy * d + yo)]]])"
  by (simp add: reverseDispatch_def transformCoordinate_def scaleOffset_def mapRing_def)

lemma reverseDispatch_flat:
  "reverseDispatch (transformCoordinate d xo yo) [Num cx, Num cy] =
     Some (Arr [Arr [Num (cx * d + xo), Num (cy * d + yo)]])"
  by (simp add: reverseDispatch_def transformCoordinate_def scaleOffset_def)

lemma scenario_bounds:
  "wci = None \<or> wci = Some (scenarioInfo w h) \<Longrightarrow>
   ii_viewportBounds (case wci of Some c \<Rightarrow> c | None \<Rightarrow> scenarioInfo w h) =
     Some \<lparr>vb_x = 1000, vb_y = 2000, vb_width = 500, vb_height = 500, vb_downsample = Some 2\<rparr>"
  by (auto simp: scenarioInfo_def)

lemma floor_times_bounds:
  fixes t d :: real
  assumes dpos: "0 < d"
  shows "js_floor (t / d) * d \<le> t \<and> t - js_floor (t / d) * d < d"
proof -
  have "(of_int \<lfloor>t / d\<rfloor> \<le> t / d) = (of_int \<lfloor>t / d\<rfloor> * d \<le> t)"
    using dpos by (rule pos_le_divide_eq)
  with of_int_floor_le[of "t / d"] have 1: "of_int \<lfloor>t / d\<rfloor> * d \<le> t" by blast
  have "(t / d < of_int \<lfloor>t / d\<rfloor> + 1) = (t < (of_int \<lfloor>t / d\<rfloor> + 1) * d)"
    using dpos by (rule pos_divide_less_eq)
  moreover have "t / d < of_int \<lfloor>t / d\<rfloor> + 1" by linarith
  ultimately have "t < (of_int \<lfloor>t / d\<rfloor> + 1) * d" by blast
  hence 2: "t - of_int \<lfloor>t / d\<rfloor> * d < d" by (simp add: algebra_simps)
  from 1 2 show ?thesis by (simp add: js_floor_def)
qed

text \<open>
  C1.  Under the descriptor with offset (1000, 2000), size 500 by 500 and downsample 2,
  on any capture of at least 101 by 101 pixels, the forward transform maps the point
  (1200, 2200) to the capture point (100, 100), and the inverse transform maps
  (100, 100) back to exactly (1200, 2200), given as one coordinate or as a ring of a
  polygon.  \<open>window.currentImageInfo\<close> is unset or is the snapshot itself.
\<close>

theorem C1_scenario:
  assumes "wci = None \<or> wci = Some (scenarioInfo w h)" and "101 \<le> w" and "101 \<le> h"
  shows "transformCoordinatesToCanvasQuPathStyle (Some v) wci
            \<lparr>c_type = ty, c_x = 1200, c_y = 2200, c_width = None, c_height = None\<rparr>
            (Some (scenarioInfo w h))
           = \<lparr>c_type = None, c_x = 100, c_y = 100, c_width = None, c_height = None\<rparr>
         \<and> transformCanvasCoordinatesToWSIQuPathStyle (Some v) wci
              (Arr [Num 100, Num 100]) (Some (scenarioInfo w h))
           = Inr (Some (Arr [Arr [Num 1200, Num 2200]]))
         \<and> transformCanvasCoordinatesToWSIQuPathStyle (Some v) wci
              (Arr [Arr [Arr [Num 100, Num 100]]]) (Some (scenarioInfo w h))
           = Inr (Some (Arr [Arr [Arr [Num 1200, Num 2200]]]))"
proof -
  note b = scenario_bounds[OF assms(1)]
  have fw: "transformCoordinatesToCanvasQuPathStyle (Some v) wci
            \<lparr>c_type = ty, c_x = 1200, c_y = 2200, c_width = None, c_height = None\<rparr>
            (Some (scenarioInfo w h))
           = \<lparr>c_type = None, c_x = 100, c_y = 100, c_width = None, c_height = None\<rparr>"
  proof -
    have "transformCoordinatesToCanvasQuPathStyle (Some v) wci
            \<lparr>c_type = ty, c_x = 1200, c_y = 2200, c_width = None, c_height = None\<rparr>
            (Some (scenarioInfo w h))
          = canvasCoordsOf 2
              \<lparr>vb_x = 1000, vb_y = 2000, vb_width = 500, vb_height = 500, vb_downsample = Some 2\<rparr>
              (scenarioInfo w h)
              (imagePixelCoordsOf v
                 \<lparr>c_type = ty, c_x = 1200, c_y = 2200, c_width = None, c_height = None\<rparr>)
              \<lparr>c_type = ty, c_x = 1200, c_y = 2200, c_width = None, c_height = None\<rparr>"
      by (rule forward_main[OF b]) simp_all
    also have "\<dots> = \<lparr>c_type = None, c_x = 100, c_y = 100, c_width = None, c_height = None\<rparr>"
      using assms(2,3)
      by (simp add: canvasCoordsOf_def imagePixelCoordsOf_def js_floor_def scenarioInfo_def)
    finally show ?thesis .
  qed
  have i1: "transformCanvasCoordinatesToWSIQuPathStyle (Some v) wci
              (Arr [Num 100, Num 100]) (Some (scenarioInfo w h))
           = Inr (Some (Arr [Arr [Num 1200, Num 2200]]))"
    by (subst inverse_main[OF b]) (simp_all add: reverseDispatch_flat)
  have i2: "transformCanvasCoordinatesToWSIQuPathStyle (Some v) wci
              (Arr [Arr [Arr [Num 100, Num 100]]]) (Some (scenarioInfo w h))
           = Inr (Some (Arr [Arr [Arr [Num 1200, Num 2200]]]))"
    by (subst inverse_main[OF b]) (simp_all add: reverseDispatch_point)
  from fw i1 i2 show ?thesis by blast
qed

theorem C1_scenario_witness:
  "transformCoordinatesToCanvasQuPathStyle (Some exampleViewer) None
            \<lparr>c_type = Some ''point'', c_x = 1200, c_y = 2200, c_width = None, c_height = None\<rparr>
            (Some (scenarioInfo 250 250))
           = \<lparr>c_type = None, c_x = 100, c_y = 100, c_width = None, c_height = None\<rparr>
         \<and> transformCanvasCoordinatesToWSIQuPathStyle (Some exampleViewer) None
              (Arr [Num 100, Num 100]) (Some (scenarioInfo 250 250))
           = Inr (Some (Arr [Arr [Num 1200, Num 2200]]))
         \<and> transformCanvasCoordinatesToWSIQuPathStyle (Some exampleViewer) None
              (Arr [Arr [Arr [Num 100, Num 100]]]) (Some (scenarioInfo 250 250))
           = Inr (Some (Arr [Arr [Arr [Num 1200, Num 2200]]]))"
  using C1_scenario[of None 250 250 exampleViewer "Some ''point''"] by simp

text \<open>
  C2, the claim as stated fails.  The point (5000, 5000) lies outside the visible
  region; the forward transform clamps it to the capture pixel (249, 249), and the
  inverse transform returns (1498, 2498), which is 3502 image pixels away in
  \<open>x\<close>, far more than the downsample factor 2.
\<close>

theorem C2_round_trip_counterexample:
  "transformCanvasCoordinatesToWSIQuPathStyle (Some exampleViewer) None
     (Arr [Arr [Arr [
        Num (c_x (transformCoordinatesToCanvasQuPathStyle (Some exampleViewer) None
               \<lparr>c_type = Some ''point'', c_x = 5000, c_y = 5000, c_width = None, c_height = None\<rparr>
               (Some (scenarioInfo 250 250)))),
        Num (c_y (transformCoordinatesToCanvasQuPathStyle (Some exampleViewer) None
               \<lparr>c_type = Some ''point'', c_x = 5000, c_y = 5000, c_width = None, c_height = None\<rparr>
               (Some (scenarioInfo 250 250))))]]])
     (Some (scenarioInfo 250 250))
   = Inr (Some (Arr [Arr [Arr [Num 1498, Num 2498]]]))
   \<and> \<not> \<bar>5000 - 1498\<bar> \<le> (2 :: real)"
proof -
  have b: "ii_viewportBounds (case None of Some c \<Rightarrow> c | None \<Rightarrow> scenarioInfo 250 250) =
     Some \<lparr>vb_x = 1000, vb_y = 2000, vb_width = 500, vb_height = 500, vb_downsample = Some 2\<rparr>"
    by (simp add: scenarioInfo_def)
  have fw: "transformCoordinatesToCanvasQuPathStyle (Some exampleViewer) None
               \<lparr>c_type = Some ''point'', c_x = 5000, c_y = 5000, c_width = None, c_height = None\<rparr>
               (Some (scenarioInfo 250 250))
            = canvasCoordsOf 2
              \<lparr>vb_x = 1000, vb_y = 2000, vb_width = 500, vb_height = 500, vb_downsample = Some 2\<rparr>
              (scenarioInfo 250 250)
              (imagePixelCoordsOf exampleViewer
                 \<lparr>c_type = Some ''point'', c_x = 5000, c_y = 5000, c_width = None, c_height = None\<rparr>)
              \<lparr>c_type = Some ''point'', c_x = 5000, c_y = 5000, c_width = None, c_height = None\<rparr>"
    by (rule forward_main[OF b]) simp_all
  have cx: "c_x (transformCoordinatesToCanvasQuPathStyle (Some exampleViewer) None
               \<lparr>c_type = Some ''point'', c_x = 5000, c_y = 5000, c_width = None, c_height = None\<rparr>
               (Some (scenarioInfo 250 250))) = 249"
    unfolding fw canvasCoordsOf_x
    by (simp add: imagePixelCoordsOf_def js_floor_def scenarioInfo_def)
  have cy: "c_y (transformCoordinatesToCanvasQuPathStyle (Some exampleViewer) None
               \<lparr>c_type = Some ''point'', c_x = 5000, c_y = 5000, c_width = None, c_height = None\<rparr>
               (Some (scenarioInfo 250 250))) = 249"
    unfolding fw canvasCoordsOf_y
    by (simp add: imagePixelCoordsOf_def js_floor_def scenarioInfo_def)
  show ?thesis
    unfolding cx cy
    by (subst inverse_main[OF b]) (simp_all add: reverseDispatch_point)
qed

text \<open>
  C2, amended.  Let the descriptor in effect have a downsample factor greater than 0,
  let the point not be taken for a normalized point (not both coordinates in [0, 1]),
  and let its capture coordinates before the clamp lie inside the capture.  Then the
  inverse transform of the forward transform of the point returns a point
  \<open>(x', y')\<close> with \<open>x' \<le> x < x' + downsample\<close> and \<open>y' \<le> y < y' + downsample\<close>: each
  coordinate is off by less than one capture pixel.  The width and height of a box are
  not part of the statement: the inverse transform maps positions only.
\<close>

theorem C2_round_trip:
  assumes b: "ii_viewportBounds (case wci of Some c \<Rightarrow> c | None \<Rightarrow> info) = Some b"
      and d: "vb_downsample b = Some d" and dpos: "0 < d"
      and notnorm: "\<not> (0 \<le> x \<and> x \<le> 1 \<and> 0 \<le> y \<and> y \<le> 1)"
      and xin: "0 \<le> js_floor ((x - vb_x b) / d)" "js_floor ((x - vb_x b) / d) \<le> ii_width info - 1"
      and yin: "0 \<le> js_floor ((y - vb_y b) / d)" "js_floor ((y - vb_y b) / d) \<le> ii_height info - 1"
  shows "\<exists>x' y'.
           transformCanvasCoordinatesToWSIQuPathStyle (Some v) wci
             (Arr [Arr [Arr [
                Num (c_x (transformCoordinatesToCanvasQuPathStyle (Some v) wci
                       \<lparr>c_type = ty, c_x = x, c_y = y, c_width = wd, c_height = ht\<rparr> (Some info))),
                Num (c_y (transformCoordinatesToCanvasQuPathStyle (Some v) wci
                       \<lparr>c_type = ty, c_x = x, c_y = y, c_width = wd, c_height = ht\<rparr> (Some info)))]]])
             (Some info)
           = Inr (Some (Arr [Arr [Arr [Num x', Num y']]]))
         \<and> x' \<le> x \<and> x - x' < d \<and> y' \<le> y \<and> y - y' < d"
proof -
  have d0: "d \<noteq> 0" using dpos by simp
  let ?cs = "\<lparr>c_type = ty, c_x = x, c_y = y, c_width = wd, c_height = ht\<rparr>"
  have ip: "imagePixelCoordsOf v ?cs = (x, y)"
    using notnorm by (auto simp: imagePixelCoordsOf_def)
  have cx: "c_x (transformCoordinatesToCanvasQuPathStyle (Some v) wci ?cs (Some info))
            = js_floor ((x - vb_x b) / d)"
    unfolding forward_main[OF b d d0] canvasCoordsOf_x ip using xin by simp
  have cy: "c_y (transformCoordinatesToCanvasQuPathStyle (Some v) wci ?cs (Some info))
            = js_floor ((y - vb_y b) / d)"
    unfolding forward_main[OF b d d0] canvasCoordsOf_y ip using yin by simp
  show ?thesis
    unfolding cx cy inverse_main[OF b d d0] reverseDispatch_point
    using floor_times_bounds[OF dpos, of "x - vb_x b"] floor_times_bounds[OF dpos, of "y - vb_y b"]
    by simp
qed

section \<open>Candidate selection\<close>

lemma shoelaceLoop_sum:
  "shoelaceLoop cs i acc =
     acc + (\<Sum>k = i..<length cs. fst (cs ! k) * snd (cs ! ((k + 1) mod length cs))
                       - fst (cs ! ((k + 1) mod length cs)) * snd (cs ! k))"
proof (induction cs i acc rule: shoelaceLoop.induct)
  case (1 cs i acc)
  show ?case
  proof (cases "i < length cs")
    case True
    have "shoelaceLoop cs i acc = shoelaceLoop cs (i + 1)
             (acc + fst (cs ! i) * snd (cs ! ((i + 1) mod length cs))
                  - fst (cs ! ((i + 1) mod length cs)) * snd (cs ! i))"
      using True by (subst shoelaceLoop.simps) (simp add: Let_def)
    also have "\<dots> = (acc + fst (cs ! i) * snd (cs ! ((i + 1) mod length cs))
                  - fst (cs ! ((i + 1) mod length cs)) * snd (cs ! i))
        + (\<Sum>k = i + 1..<length cs. fst (cs ! k) * snd (cs ! ((k + 1) mod length cs))
                       - fst (cs ! ((k + 1) mod length cs)) * snd (cs ! k))"
      using "1.IH"[OF True refl] by simp
    also have "\<dots> = acc + (\<Sum>k = i..<length cs. fst (cs ! k) * snd (cs ! ((k + 1) mod length cs))
                       - fst (cs ! ((k + 1) mod length cs)) * snd (cs ! k))"
      using True by (simp add: sum.atLeast_Suc_lessThan)
    finally show ?thesis .
  next
    case False
    then show ?thesis by (subst shoelaceLoop.simps) simp
  qed
qed

lemma shoelace_short:
  assumes "length ps < 3"
  shows "(\<Sum>i < length ps. fst (ps ! i) * snd (ps ! ((i + 1) mod length ps))
                       - fst (ps ! ((i + 1) mod length ps)) * snd (ps ! i)) = (0::real)"
proof -
  consider "length ps = 0" | "length ps = 1" | "length ps = 2" using assms by linarith
  then show ?thesis
  proof cases
    case 1 then show ?thesis by simp
  next
    case 2 then show ?thesis by simp
  next
    case 3 then show ?thesis by (simp add: lessThan_Suc numeral_2_eq_2)
  qed
qed

lemma calculatePolygonArea_shoelace: "calculatePolygonArea ps = shoelaceFormula ps"
proof (cases "length ps < 3")
  case True
  then show ?thesis
    using shoelace_short[OF True] by (simp add: calculatePolygonArea_def shoelaceFormula_def)
next
  case False
  then show ?thesis
    by (simp add: calculatePolygonArea_def shoelaceFormula_def shoelaceLoop_sum lessThan_atLeast0)
qed

lemma areaOf_shoelaceArea: "areaOf f = shoelaceArea f"
  by (simp add: areaOf_def shoelaceArea_def calculatePolygonArea_shoelace
      split: option.splits list.splits)

lemma js_sort_Cons: "js_sort gt (x # xs) = insertBy gt x (js_sort gt xs)"
  by (simp add: js_sort_def)

lemma hd_insertBy:
  "hd (insertBy gt x ys) = (if ys \<noteq> [] \<and> gt x (hd ys) then hd ys else x)"
  by (cases ys) simp_all

lemma insertBy_nonempty: "insertBy gt x ys \<noteq> []"
  by (cases ys) simp_all

lemma js_sort_nonempty: "xs \<noteq> [] \<Longrightarrow> js_sort gt xs \<noteq> []"
  by (cases xs) (simp_all add: js_sort_Cons insertBy_nonempty)

lemma js_sort_Nil: "js_sort gt [] = []"
  by (simp add: js_sort_def)

lemma js_sort_hd_min:
  assumes T: "\<And>a b c. P a \<Longrightarrow> P b \<Longrightarrow> P c \<Longrightarrow> \<not> gt a b \<Longrightarrow> \<not> gt b c \<Longrightarrow> \<not> gt a c"
      and C: "\<And>a b. P a \<Longrightarrow> P b \<Longrightarrow> gt a b \<Longrightarrow> \<not> gt b a"
  shows "xs \<noteq> [] \<Longrightarrow> list_all P xs \<Longrightarrow>
         hd (js_sort gt xs) \<in> set xs \<and> list_all (\<lambda>y. \<not> gt (hd (js_sort gt xs)) y) xs"
proof (induction xs)
  case Nil
  then show ?case by simp
next
  case (Cons x xs)
  have Px: "P x" and Pxs: "list_all P xs" using Cons.prems(2) by simp_all
  have xx: "\<not> gt x x" using C[OF Px Px] by blast
  show ?case
  proof (cases "xs = []")
    case True
    have "js_sort gt (x # xs) = [x]" using True by (simp add: js_sort_Cons js_sort_Nil)
    then show ?thesis using xx True by simp
  next
    case False
    define m where "m = hd (js_sort gt xs)"
    from Cons.IH[OF False Pxs]
    have m_in: "m \<in> set xs" and m_min: "list_all (\<lambda>y. \<not> gt m y) xs"
      unfolding m_def by simp_all
    have Pm: "P m" using Pxs m_in by (simp add: list_all_iff)
    have ne: "js_sort gt xs \<noteq> []" using False by (rule js_sort_nonempty)
    have hd_eq: "hd (js_sort gt (x # xs)) = (if gt x m then m else x)"
      using ne by (simp add: js_sort_Cons hd_insertBy m_def)
    show ?thesis
    proof (cases "gt x m")
      case True
      have h: "hd (js_sort gt (x # xs)) = m" using True by (simp add: hd_eq)
      have mx: "\<not> gt m x" using C[OF Px Pm True] .
      show ?thesis unfolding h using mx m_min m_in by simp
    next
      case False
      have h: "hd (js_sort gt (x # xs)) = x" using False by (simp add: hd_eq)
      have "list_all (\<lambda>y. \<not> gt x y) xs"
        unfolding list_all_iff
      proof
        fix y assume y: "y \<in> set xs"
        have Py: "P y" using Pxs y by (simp add: list_all_iff)
        have my: "\<not> gt m y" using m_min y by (simp add: list_all_iff)
        show "\<not> gt x y" using T[OF Px Pm Py False my] .
      qed
      then show ?thesis unfolding h using xx by simp
    qed
  qed
qed

lemma areaGreater_Some: "areaGreater (Some a) (Some b) = (\<not> area_le a b)"
  by (cases a; cases b) (auto simp: areaGreater_def area_le_def)

lemma area_le_trans: "area_le a b \<Longrightarrow> area_le b c \<Longrightarrow> area_le a c"
  by (cases a; cases b; cases c) (auto simp: area_le_def)

lemma area_le_total: "area_le a b \<or> area_le b a"
  by (cases a; cases b) (auto simp: area_le_def)

lemma withArea_area: "f_calculatedArea (withArea f) = Some (areaOf f)"
  by (simp add: withArea_def)

text \<open>
  C4.  For a non-empty list of candidate features, the feature selected (the first
  after the sort by \<open>calculatedArea\<close>) is one of the candidates, and its area by the
  shoelace formula is the minimum over all candidates.  For the two squares of area 400
  and 100 and the triangle of area 50, the triangle is selected (the witness).
\<close>

theorem C4_minimum_area:
  assumes "fs \<noteq> []"
  shows "\<exists>best. bestFeature fs = Some (withArea best) \<and> best \<in> set fs \<and>
           (\<forall>f\<in>set fs. area_le (shoelaceArea best) (shoelaceArea f))"
proof -
  define gt :: "feature \<Rightarrow> feature \<Rightarrow> bool"
    where "gt = (\<lambda>a b. areaGreater (f_calculatedArea a) (f_calculatedArea b))"
  define P :: "feature \<Rightarrow> bool"
    where "P = (\<lambda>a. \<exists>ar. f_calculatedArea a = Some ar)"
  have T: "\<And>a b c. P a \<Longrightarrow> P b \<Longrightarrow> P c \<Longrightarrow> \<not> gt a b \<Longrightarrow> \<not> gt b c \<Longrightarrow> \<not> gt a c"
  proof -
    fix a b c assume "P a" "P b" "P c" and ab: "\<not> gt a b" and bc: "\<not> gt b c"
    then obtain x y z where e: "f_calculatedArea a = Some x" "f_calculatedArea b = Some y"
      "f_calculatedArea c = Some z" unfolding P_def by blast
    from ab bc have "area_le x y" "area_le y z" by (simp_all add: gt_def e areaGreater_Some)
    hence "area_le x z" by (rule area_le_trans)
    thus "\<not> gt a c" by (simp add: gt_def e areaGreater_Some)
  qed
  have C: "\<And>a b. P a \<Longrightarrow> P b \<Longrightarrow> gt a b \<Longrightarrow> \<not> gt b a"
  proof -
    fix a b assume "P a" "P b" and ab: "gt a b"
    then obtain x y where e: "f_calculatedArea a = Some x" "f_calculatedArea b = Some y"
      unfolding P_def by blast
    from ab have "\<not> area_le x y" by (simp add: gt_def e areaGreater_Some)
    with area_le_total[of x y] have "area_le y x" by blast
    thus "\<not> gt b a" by (simp add: gt_def e areaGreater_Some)
  qed
  have ne: "map withArea fs \<noteq> []" using assms by simp
  have allP: "list_all P (map withArea fs)"
    by (simp add: list_all_iff P_def withArea_area)
  have srt: "sortByArea fs = js_sort gt (map withArea fs)"
    by (simp add: sortByArea_def gt_def)
  from js_sort_hd_min[of P gt, OF T C ne allP]
  have h: "hd (sortByArea fs) \<in> set (map withArea fs)"
    and hmin: "list_all (\<lambda>y. \<not> gt (hd (sortByArea fs)) y) (map withArea fs)"
    unfolding srt by simp_all
  from h obtain best where best: "best \<in> set fs" "hd (sortByArea fs) = withArea best"
    by auto
  have sne: "sortByArea fs \<noteq> []" unfolding srt using ne by (rule js_sort_nonempty)
  have bf: "bestFeature fs = Some (withArea best)"
    using sne best(2) by (cases "sortByArea fs") (simp_all add: bestFeature_def)
  have "\<forall>f\<in>set fs. area_le (shoelaceArea best) (shoelaceArea f)"
  proof
    fix f assume "f \<in> set fs"
    hence "\<not> gt (withArea best) (withArea f)"
      using hmin unfolding best(2) by (simp add: list_all_iff)
    thus "area_le (shoelaceArea best) (shoelaceArea f)"
      by (simp add: gt_def withArea_area areaGreater_Some areaOf_shoelaceArea)
  qed
  with bf best(1) show ?thesis by blast
qed

lemma shoelaceFormula3:
  "shoelaceFormula [a, b, c] =
     \<bar>(fst a * snd b - fst b * snd a) + (fst b * snd c - fst c * snd b)
       + (fst c * snd a - fst a * snd c)\<bar> / 2"
proof -
  have l: "length [a, b, c] = Suc (Suc (Suc 0))" by simp
  have m: "(0 + 1) mod Suc (Suc (Suc 0)) = Suc 0" "(Suc 0 + 1) mod Suc (Suc (Suc 0)) = Suc (Suc 0)"
     "(Suc (Suc 0) + 1) mod Suc (Suc (Suc 0)) = 0"
    by simp_all
  show ?thesis
    unfolding shoelaceFormula_def l lessThan_Suc lessThan_0
    by (simp add: m)
qed

lemma shoelaceFormula4:
  "shoelaceFormula [a, b, c, d] =
     \<bar>(fst a * snd b - fst b * snd a) + (fst b * snd c - fst c * snd b)
       + (fst c * snd d - fst d * snd c) + (fst d * snd a - fst a * snd d)\<bar> / 2"
proof -
  have l: "length [a, b, c, d] = Suc (Suc (Suc (Suc 0)))" by simp
  have m: "(0 + 1) mod Suc (Suc (Suc (Suc 0))) = Suc 0"
     "(Suc 0 + 1) mod Suc (Suc (Suc (Suc 0))) = Suc (Suc 0)"
     "(Suc (Suc 0) + 1) mod Suc (Suc (Suc (Suc 0))) = Suc (Suc (Suc 0))"
     "(Suc (Suc (Suc 0)) + 1) mod Suc (Suc (Suc (Suc 0))) = 0"
    by simp_all
  show ?thesis
    unfolding shoelaceFormula_def l lessThan_Suc lessThan_0
    by (simp add: m)
qed

lemma sh1: "shoelaceArea square400 = Finite 400"
  by (simp add: shoelaceArea_def square400_def polygonFeature_def shoelaceFormula4)
lemma sh2: "shoelaceArea square100 = Finite 100"
  by (simp add: shoelaceArea_def square100_def polygonFeature_def shoelaceFormula4)
lemma sh3: "shoelaceArea triangle50 = Finite 50"
  by (simp add: shoelaceArea_def triangle50_def polygonFeature_def shoelaceFormula3)


theorem C4_minimum_area_witness:
  "bestFeature [square400, square100, triangle50] = Some (withArea triangle50)"
proof -
  have ne: "[square400, square100, triangle50] \<noteq> []" by simp
  from C4_minimum_area[OF ne]
  obtain best where b1: "bestFeature [square400, square100, triangle50] = Some (withArea best)"
     and b2: "best \<in> set [square400, square100, triangle50]"
     and b3: "\<forall>f\<in>set [square400, square100, triangle50]. area_le (shoelaceArea best) (shoelaceArea f)"
    by blast
  from b3 have le: "area_le (shoelaceArea best) (Finite 50)" by (simp add: sh3)
  from b2 have "best = square400 \<or> best = square100 \<or> best = triangle50" by simp
  moreover have "best \<noteq> square400" using le by (auto simp: sh1 area_le_def)
  moreover have "best \<noteq> square100" using le by (auto simp: sh2 area_le_def)
  ultimately have "best = triangle50" by blast
  with b1 show ?thesis by simp
qed

section \<open>Round trip and clamping\<close>

theorem C2_round_trip_witness:
  "\<exists>x' y'.
     transformCanvasCoordinatesToWSIQuPathStyle (Some exampleViewer) None
       (Arr [Arr [Arr [
          Num (c_x (transformCoordinatesToCanvasQuPathStyle (Some exampleViewer) None
                 \<lparr>c_type = Some ''point'', c_x = 1201, c_y = 2203, c_width = None, c_height = None\<rparr>
                 (Some (scenarioInfo 250 250)))),
          Num (c_y (transformCoordinatesToCanvasQuPathStyle (Some exampleViewer) None
                 \<lparr>c_type = Some ''point'', c_x = 1201, c_y = 2203, c_width = None, c_height = None\<rparr>
                 (Some (scenarioInfo 250 250))))]]])
       (Some (scenarioInfo 250 250))
     = Inr (Some (Arr [Arr [Arr [Num x', Num y']]]))
   \<and> x' \<le> 1201 \<and> 1201 - x' < 2 \<and> y' \<le> 2203 \<and> 2203 - y' < 2"
proof -
  have b: "ii_viewportBounds (case None of Some c \<Rightarrow> c | None \<Rightarrow> scenarioInfo 250 250) =
     Some \<lparr>vb_x = 1000, vb_y = 2000, vb_width = 500, vb_height = 500, vb_downsample = Some 2\<rparr>"
    by (simp add: scenarioInfo_def)
  show ?thesis
    by (rule C2_round_trip[OF b, of 2 1201 2203 exampleViewer "Some ''point''" None None])
       (simp_all add: js_floor_def scenarioInfo_def)
qed

text \<open>
  C3, the claim as stated fails.  The region-relative forward transform of sam-api.js
  (\<open>transformWSIToCanvasCoordinates\<close> over \<open>wsiToViewportCoords\<close>) floors and does
  not clamp: the image-pixel point (750, 1750), left of and above the visible region of
  the scenario, goes to the capture point (-125, -125).
\<close>

theorem C3_clamp_counterexample:
  "transformWSIToCanvasCoordinates
     \<lparr>c_type = Some ''point'', c_x = 750, c_y = 1750, c_width = None, c_height = None\<rparr>
     (scenarioInfo 250 250)
   = Inr (Some \<lparr>cc_x = Some (- 125), cc_y = Some (- 125), cc_width = None, cc_height = None\<rparr>)
   \<and> (- 125 :: real) < 0"
  by (simp add: transformWSIToCanvasCoordinates_def scenarioInfo_def wsiToViewportCoords_def
      regionOf_def js_div_def js_floor_def Let_def)

text \<open>
  C3, amended.  The QuPath-style forward transform, with the viewer available, a
  descriptor in effect whose downsample factor is present and not 0, and a capture of
  at least 1 by 1 pixels, returns for every input point (inside the visible region or
  not) an \<open>x\<close> in [0, width - 1] and a \<open>y\<close> in [0, height - 1].
\<close>

theorem C3_clamp:
  assumes "ii_viewportBounds (case wci of Some c \<Rightarrow> c | None \<Rightarrow> info) = Some b"
      and "vb_downsample b = Some d" and "d \<noteq> 0"
      and "1 \<le> ii_width info" and "1 \<le> ii_height info"
  shows "0 \<le> c_x (transformCoordinatesToCanvasQuPathStyle (Some v) wci p (Some info)) \<and>
         c_x (transformCoordinatesToCanvasQuPathStyle (Some v) wci p (Some info)) \<le> ii_width info - 1 \<and>
         0 \<le> c_y (transformCoordinatesToCanvasQuPathStyle (Some v) wci p (Some info)) \<and>
         c_y (transformCoordinatesToCanvasQuPathStyle (Some v) wci p (Some info)) \<le> ii_height info - 1"
  using assms(4,5) unfolding forward_main[OF assms(1-3)] canvasCoordsOf_x canvasCoordsOf_y
  by simp

theorem C3_clamp_witness:
  "0 \<le> c_x (transformCoordinatesToCanvasQuPathStyle (Some exampleViewer) None
             \<lparr>c_type = Some ''point'', c_x = 5000, c_y = - 3, c_width = None, c_height = None\<rparr>
             (Some (scenarioInfo 250 250))) \<and>
   c_x (transformCoordinatesToCanvasQuPathStyle (Some exampleViewer) None
             \<lparr>c_type = Some ''point'', c_x = 5000, c_y = - 3, c_width = None, c_height = None\<rparr>
             (Some (scenarioInfo 250 250))) \<le> 250 - 1 \<and>
   0 \<le> c_y (transformCoordinatesToCanvasQuPathStyle (Some exampleViewer) None
             \<lparr>c_type = Some ''point'', c_x = 5000, c_y = - 3, c_width = None, c_height = None\<rparr>
             (Some (scenarioInfo 250 250))) \<and>
   c_y (transformCoordinatesToCanvasQuPathStyle (Some exampleViewer) None
             \<lparr>c_type = Some ''point'', c_x = 5000, c_y = - 3, c_width = None, c_height = None\<rparr>
             (Some (scenarioInfo 250 250))) \<le> 250 - 1"
proof -
  have b: "ii_viewportBounds (case None of Some c \<Rightarrow> c | None \<Rightarrow> scenarioInfo 250 250) =
     Some \<lparr>vb_x = 1000, vb_y = 2000, vb_width = 500, vb_height = 500, vb_downsample = Some 2\<rparr>"
    by (simp add: scenarioInfo_def)
  have w: "ii_width (scenarioInfo 250 250) = 250" "ii_height (scenarioInfo 250 250) = 250"
    by (simp_all add: scenarioInfo_def)
  show ?thesis
    using C3_clamp[OF b, of 2 exampleViewer
        "\<lparr>c_type = Some ''point'', c_x = 5000, c_y = - 3, c_width = None, c_height = None\<rparr>"]
    unfolding w by simp
qed

section \<open>The descriptor built at capture\<close>

lemma exampleViewer_bounds:
  "getCurrentViewportBounds (Some exampleViewer) =
     Some \<lparr>vb_x = 1000, vb_y = 2000, vb_width = 500, vb_height = 500, vb_downsample = None\<rparr>"
  by (simp add: getCurrentViewportBounds_def exampleViewer_def js_round_def Let_def)

text \<open>
  C7.  The code does not do what the claim says: for every state of the viewer the
  object \<open>getCurrentViewportBounds\<close> returns has no \<open>downsample\<close> property, and so
  has the descriptor of every snapshot \<open>getCurrentImageData\<close> assembles.  The value
  \<open>1.0 / currentZoom\<close> is computed and dropped.
\<close>

theorem C7_descriptor_without_downsample:
  "map_option vb_downsample (getCurrentViewportBounds (Some v)) = Some None
   \<and> map_option (\<lambda>i. map_option vb_downsample (ii_viewportBounds i))
       (getCurrentImageData (Some (v\<lparr>vw_canvasData := Some img\<rparr>))) = Some (Some None)"
  by (simp add: getCurrentViewportBounds_def getCurrentImageData_def Let_def split: prod.splits)

section \<open>Classification\<close>

lemma explicitTags_no_tagging:
  assumes "\<forall>item\<in>set (case a_body ann of None \<Rightarrow> [] | Some items \<Rightarrow> items).
             b_purpose item \<noteq> Some ''tagging''"
  shows "explicitTags ann = []"
proof (cases "a_body ann")
  case None
  then show ?thesis by (simp add: explicitTags_def)
next
  case (Some items)
  have "\<And>item. item \<in> set items \<Longrightarrow>
          (case b_text item of None \<Rightarrow> None
           | Some v \<Rightarrow> if v \<noteq> [] \<and> trim v \<noteq> [] \<and> b_purpose item = Some ''tagging''
                       then Some (trim v) else None) = None"
    using assms Some by (auto split: option.splits)
  hence "List.map_filter (\<lambda>item. case b_text item of None \<Rightarrow> None
           | Some v \<Rightarrow> if v \<noteq> [] \<and> trim v \<noteq> [] \<and> b_purpose item = Some ''tagging''
                       then Some (trim v) else None) items = []"
    by (induction items) (simp_all add: List.map_filter_simps)
  then show ?thesis using Some by (simp add: explicitTags_def)
qed

text \<open>
  C9, amended.  An annotation with no body item of the tagging purpose, which none of
  the five detection methods takes for a model-generated one, is given the single tag
  \<open>Manual\<close>.
\<close>

theorem C9_default_tag_is_Manual:
  assumes "\<forall>item\<in>set (case a_body ann of None \<Rightarrow> [] | Some items \<Rightarrow> items).
             b_purpose item \<noteq> Some ''tagging''"
      and "\<not> isAnnotationFromSAMEnhanced tool ann"
  shows "getAnnotationTags tool ann = [''Manual'']"
  using explicitTags_no_tagging[OF assms(1)] assms(2) by (simp add: getAnnotationTags_def)

lemma lower_Tumor: "toLowerCase ''Tumor'' = ''tumor''"
  by (simp add: toLowerCase_def lowerChar_def)

lemma commented_not_sam: "\<not> isAnnotationFromSAMEnhanced ''rect'' commentedAnnotation"
  by (simp add: isAnnotationFromSAMEnhanced_def commentedAnnotation_def startsWith_def lower_Tumor)

theorem C9_default_tag_is_Manual_witness:
  "getAnnotationTags ''rect'' commentedAnnotation = [''Manual'']"
proof -
  have 1: "\<forall>item\<in>set (case a_body commentedAnnotation of None \<Rightarrow> [] | Some items \<Rightarrow> items).
             b_purpose item \<noteq> Some ''tagging''"
    by (simp add: commentedAnnotation_def)
  show ?thesis by (rule C9_default_tag_is_Manual[OF 1 commented_not_sam])
qed

text \<open>
  C9, the claim as stated fails.  An annotation without a body and with an id that does
  not start with \<open>sam-\<close>, classified while the \<open>rect\<close> tool is active, matches none
  of the fallback steps; its tags are \<open>Manual\<close>, and \<open>Uncategorized\<close> is not among
  them.  No branch of the code produces the tag \<open>Uncategorized\<close>.
\<close>

theorem C9_uncategorized_counterexample:
  "getAnnotationTags ''rect'' plainAnnotation = [''Manual'']
   \<and> ''Uncategorized'' \<notin> set (getAnnotationTags ''rect'' plainAnnotation)"
proof -
  have e: "explicitTags plainAnnotation = []"
    by (simp add: explicitTags_def plainAnnotation_def)
  have n: "\<not> isAnnotationFromSAMEnhanced ''rect'' plainAnnotation"
    by (simp add: isAnnotationFromSAMEnhanced_def plainAnnotation_def startsWith_def)
  have "getAnnotationTags ''rect'' plainAnnotation = [''Manual'']"
    using e n by (simp add: getAnnotationTags_def)
  thus ?thesis by simp
qed

section \<open>Rings after the first\<close>

lemma transform_first_ring:
  "transformCanvasToWSICoordinates (take (Suc 0) coordinates) info =
   transformCanvasToWSICoordinates coordinates info"
  by (cases coordinates) (simp_all add: transformCanvasToWSICoordinates_def)

lemma areaOf_firstRingOnly: "areaOf (firstRingOnly f) = areaOf f"
  by (simp add: areaOf_def firstRingOnly_def split: option.splits list.splits)

lemma withArea_firstRingOnly: "withArea (firstRingOnly f) = firstRingOnly (withArea f)"
  by (simp add: withArea_def areaOf_firstRingOnly) (simp add: firstRingOnly_def)

lemma calculatedArea_firstRingOnly: "f_calculatedArea (firstRingOnly f) = f_calculatedArea f"
  by (simp add: firstRingOnly_def)

lemma insertBy_map:
  assumes "\<And>a b. gt (h a) (h b) = gt a b"
  shows "insertBy gt (h x) (map h ys) = map h (insertBy gt x ys)"
  by (induction ys) (simp_all add: assms)

lemma js_sort_map:
  assumes "\<And>a b. gt (h a) (h b) = gt a b"
  shows "js_sort gt (map h xs) = map h (js_sort gt xs)"
proof (induction xs)
  case Nil
  show ?case by (simp add: js_sort_def)
next
  case (Cons x xs)
  have "js_sort gt (map h (x # xs)) = insertBy gt (h x) (js_sort gt (map h xs))"
    by (simp add: js_sort_def)
  also have "\<dots> = insertBy gt (h x) (map h (js_sort gt xs))" by (simp add: Cons.IH)
  also have "\<dots> = map h (insertBy gt x (js_sort gt xs))" by (rule insertBy_map[of gt h, OF assms])
  also have "\<dots> = map h (js_sort gt (x # xs))" by (simp add: js_sort_def)
  finally show ?case .
qed

lemma sortByArea_firstRingOnly:
  "sortByArea (map firstRingOnly fs) = map firstRingOnly (sortByArea fs)"
proof -
  have m: "map withArea (map firstRingOnly fs) = map firstRingOnly (map withArea fs)"
    by (simp add: withArea_firstRingOnly)
  show ?thesis
    unfolding sortByArea_def m
    by (rule js_sort_map) (simp add: calculatedArea_firstRingOnly)
qed

lemma bestFeature_firstRingOnly:
  "bestFeature (map firstRingOnly fs) = map_option firstRingOnly (bestFeature fs)"
  unfolding bestFeature_def sortByArea_firstRingOnly
  by (cases "sortByArea fs") simp_all

lemma convert_features:
  "convertSAMResultToAnnotation xf mk nid (ResultFeatures fs) orig info =
     (case bestFeature fs of
        None \<Rightarrow> None
      | Some best \<Rightarrow>
          (case f_geometry best of
             None \<Rightarrow> None
           | Some g \<Rightarrow>
               (case g_coordinates g of
                  None \<Rightarrow> None
                | Some coordinates \<Rightarrow>
                    (case xf coordinates info of
                       Inl e \<Rightarrow> None
                     | Inr None \<Rightarrow> None
                     | Inr (Some w) \<Rightarrow> Some (samAnnotationOf nid (mk w) orig)))))"
  by (simp add: convertSAMResultToAnnotation_def featuresOf_def)

lemma convert_firstRingOnly:
  "convertSAMResultToAnnotation (xform_sam st) mk nid (ResultFeatures (map firstRingOnly fs)) orig info
   = convertSAMResultToAnnotation (xform_sam st) mk nid (ResultFeatures fs) orig info"
proof (cases "bestFeature fs")
  case None
  then show ?thesis by (simp add: convert_features bestFeature_firstRingOnly)
next
  case (Some best)
  show ?thesis
  proof (cases "f_geometry best")
    case None
    then show ?thesis using Some
      by (simp add: convert_features bestFeature_firstRingOnly firstRingOnly_def)
  next
    case (Some g)
    note g = Some
    show ?thesis
    proof (cases "g_coordinates g")
      case None
      then show ?thesis using \<open>bestFeature fs = Some best\<close> g
        by (simp add: convert_features bestFeature_firstRingOnly firstRingOnly_def)
    next
      case (Some coordinates)
      then show ?thesis using \<open>bestFeature fs = Some best\<close> g
        by (simp add: convert_features bestFeature_firstRingOnly firstRingOnly_def
            xform_sam_def transform_first_ring)
    qed
  qed
qed

lemma convert_best:
  assumes "bestFeature fs = Some best" and "f_geometry best = Some g"
    and "g_coordinates g = Some coordinates"
  shows "convertSAMResultToAnnotation xf mk nid (ResultFeatures fs) orig info =
     (case xf coordinates info of
        Inl e \<Rightarrow> None
      | Inr None \<Rightarrow> None
      | Inr (Some w) \<Rightarrow> Some (samAnnotationOf nid (mk w) orig))"
  using assms by (simp add: convert_features)

lemma sam_inverse_first_ring:
  assumes "ii_viewportBounds info = Some b"
  shows "transformCanvasToWSICoordinates (r # rs) info =
     Inr (Some [viewportToWsiCoords r (regionOf b) (ii_width info, ii_height info)])"
  using assms by (simp add: transformCanvasToWSICoordinates_def)

lemma viewportToWsiCoords_finite:
  assumes "w \<noteq> 0" and "h \<noteq> 0"
  shows "viewportToWsiCoords r (regionOf b) (w, h) =
     map (\<lambda>c. (Fin (vb_x b + fst c * (1 / w) * vb_width b),
               Fin (vb_y b + snd c * (1 / h) * vb_height b))) r"
  using assms
  by (simp add: viewportToWsiCoords_def regionOf_def jsnum_recip_def jsnum_times_def
      jsnum_plus_def)

lemma polygon_first_ring:
  "createSVGPathFromWSICoordinates showNum ((p # ps) # ws) =
     ''<svg><polygon points='' @ dquote @ joinWith '' '' (map (showPoint showNum) (p # ps)) @
     dquote @ '' /></svg>''"
  by (simp add: createSVGPathFromWSICoordinates_def)

lemma path_first_ring:
  "createSVGPathFromWSICoordinates_am showNum ((p # ps) # ws) =
     ''<svg><path d='' @ dquote @ ''M '' @ showPoint showNum p @
     concat (map (\<lambda>c. '' L '' @ showPoint showNum c) ps) @ '' Z'' @ dquote @ ''></path></svg>''"
  by (simp add: createSVGPathFromWSICoordinates_am_def)

lemma polygon_drops_rest:
  "createSVGPathFromWSICoordinates showNum (w # ws) = createSVGPathFromWSICoordinates showNum [w]"
  by (simp add: createSVGPathFromWSICoordinates_def)

lemma path_drops_rest:
  "createSVGPathFromWSICoordinates_am showNum (w # ws) = createSVGPathFromWSICoordinates_am showNum [w]"
  by (simp add: createSVGPathFromWSICoordinates_am_def)

lemma selector_of_samAnnotation:
  "Option.bind (a_target (samAnnotationOf nid svgPath orig)) tg_selector =
     Some \<lparr>sel_type = ''SvgSelector'', sel_text = svgPath\<rparr>"
  by (simp add: samAnnotationOf_def)

text \<open>
  The other declaration of \<open>transformCanvasToWSICoordinates\<close>, the wrapper of
  coordinate-transforms.js, maps every ring of a polygon when the descriptor it reads has
  a \<open>downsample\<close>, and returns \<open>null\<close> when it has none, as is the case for every
  descriptor \<open>getCurrentViewportBounds\<close> builds.
\<close>

lemma mapRings_every_ring:
  "mapRings f (map Arr rs) = Some (map (\<lambda>cs. Arr (map f cs)) rs)"
  by (induction rs) (simp_all add: mapRing_def)

lemma ct_inverse_every_ring:
  assumes "ii_viewportBounds info = Some b" and "vb_downsample b = Some d" and "d \<noteq> 0"
  shows "transformCanvasToWSICoordinates_ct (Some v) (Some info)
           (Arr (map Arr ((Arr c # cs) # rs))) x =
         Inr (Some (Arr (map (\<lambda>ring. Arr (map (transformCoordinate d (vb_x b) (vb_y b)) ring))
                           ((Arr c # cs) # rs))))"
proof -
  have "mapRings (transformCoordinate d (vb_x b) (vb_y b)) (map Arr ((Arr c # cs) # rs)) =
        Some (map (\<lambda>ring. Arr (map (transformCoordinate d (vb_x b) (vb_y b)) ring))
                  ((Arr c # cs) # rs))"
    by (rule mapRings_every_ring)
  thus ?thesis using assms
    by (simp add: transformCanvasToWSICoordinates_ct_def
        transformCanvasCoordinatesToWSIQuPathStyle_def reverseDispatch_def)
qed

lemma ct_inverse_without_downsample:
  assumes "ii_viewportBounds info = Some b" and "vb_downsample b = None"
  shows "transformCanvasToWSICoordinates_ct (Some v) (Some info) (Arr elems) x = Inr None"
  using assms
  by (simp add: transformCanvasToWSICoordinates_ct_def
      transformCanvasCoordinatesToWSIQuPathStyle_def)

text \<open>
  C10.  Let the selected candidate be a polygon with the rings \<open>r # rs\<close>, on a capture
  of non-zero width and height.  The inverse transform of sam-api.js maps the positions
  of \<open>r\<close> to image pixels (offset plus position over capture size times region
  size) and returns this one ring.  \<open>convertSAMResultToAnnotation\<close> hands exactly
  this ring to the encoder and returns the annotation whose \<open>SvgSelector\<close> holds the
  encoder's text.  Each of the two encoders writes the positions of the first ring of
  what it is given, and nothing of the rings after it.  Whatever the global
  \<open>transformCanvasToWSICoordinates\<close> is bound to, the selector holds the encoding
  of the first ring that function returns.  The annotation is the same with the rings
  after the first removed from every candidate: holes are dropped without a trace.
\<close>

theorem C10_only_first_ring:
  assumes "bestFeature fs = Some best" and "f_geometry best = Some g"
    and "g_coordinates g = Some (r # rs)" and "ii_viewportBounds info = Some b"
    and "ii_width info \<noteq> 0" and "ii_height info \<noteq> 0"
  shows
    "transformCanvasToWSICoordinates (r # rs) info =
       Inr (Some [map (\<lambda>c. (Fin (vb_x b + fst c * (1 / ii_width info) * vb_width b),
                            Fin (vb_y b + snd c * (1 / ii_height info) * vb_height b))) r])
     \<and> convertSAMResultToAnnotation (xform_sam st) mk nid (ResultFeatures fs) orig info =
         Some (samAnnotationOf nid
                 (mk [map (\<lambda>c. (Fin (vb_x b + fst c * (1 / ii_width info) * vb_width b),
                                Fin (vb_y b + snd c * (1 / ii_height info) * vb_height b))) r])
                 orig)
     \<and> Option.bind (a_target (samAnnotationOf nid svgPath orig)) tg_selector =
         Some \<lparr>sel_type = ''SvgSelector'', sel_text = svgPath\<rparr>
     \<and> createSVGPathFromWSICoordinates showNum ((p # ps) # ws) =
         ''<svg><polygon points='' @ dquote @ joinWith '' '' (map (showPoint showNum) (p # ps)) @
         dquote @ '' /></svg>''
     \<and> createSVGPathFromWSICoordinates_am showNum ((p # ps) # ws) =
         ''<svg><path d='' @ dquote @ ''M '' @ showPoint showNum p @
         concat (map (\<lambda>c. '' L '' @ showPoint showNum c) ps) @ '' Z'' @ dquote @
         ''></path></svg>''
     \<and> (xf (r # rs) info = Inr (Some (w # ws')) \<longrightarrow>
          convertSAMResultToAnnotation xf (createSVGPathFromWSICoordinates showNum) nid
              (ResultFeatures fs) orig info =
            Some (samAnnotationOf nid (createSVGPathFromWSICoordinates showNum [w]) orig)
          \<and> convertSAMResultToAnnotation xf (createSVGPathFromWSICoordinates_am showNum) nid
              (ResultFeatures fs) orig info =
            Some (samAnnotationOf nid (createSVGPathFromWSICoordinates_am showNum [w]) orig))
     \<and> convertSAMResultToAnnotation (xform_sam st) mk nid (ResultFeatures (map firstRingOnly fs))
           orig info =
         convertSAMResultToAnnotation (xform_sam st) mk nid (ResultFeatures fs) orig info"
proof -
  let ?ring = "map (\<lambda>c. (Fin (vb_x b + fst c * (1 / ii_width info) * vb_width b),
                          Fin (vb_y b + snd c * (1 / ii_height info) * vb_height b))) r"
  have v: "viewportToWsiCoords r (regionOf b) (ii_width info, ii_height info) = ?ring"
    using assms(5,6) by (rule viewportToWsiCoords_finite)
  have 1: "transformCanvasToWSICoordinates (r # rs) info = Inr (Some [?ring])"
    using sam_inverse_first_ring[OF assms(4), of r rs] v by simp
  have c: "\<And>xf mk. convertSAMResultToAnnotation xf mk nid (ResultFeatures fs) orig info =
     (case xf (r # rs) info of
        Inl e \<Rightarrow> None
      | Inr None \<Rightarrow> None
      | Inr (Some w) \<Rightarrow> Some (samAnnotationOf nid (mk w) orig))"
    by (rule convert_best[OF assms(1,2,3)])
  have 2: "convertSAMResultToAnnotation (xform_sam st) mk nid (ResultFeatures fs) orig info =
         Some (samAnnotationOf nid (mk [?ring]) orig)"
    by (simp add: c xform_sam_def 1)
  have 6: "xf (r # rs) info = Inr (Some (w # ws')) \<longrightarrow>
          convertSAMResultToAnnotation xf (createSVGPathFromWSICoordinates showNum) nid
              (ResultFeatures fs) orig info =
            Some (samAnnotationOf nid (createSVGPathFromWSICoordinates showNum [w]) orig)
          \<and> convertSAMResultToAnnotation xf (createSVGPathFromWSICoordinates_am showNum) nid
              (ResultFeatures fs) orig info =
            Some (samAnnotationOf nid (createSVGPathFromWSICoordinates_am showNum [w]) orig)"
    using polygon_drops_rest[of showNum w ws'] path_drops_rest[of showNum w ws']
    by (simp add: c)
  show ?thesis
    using 1 2 selector_of_samAnnotation[of nid svgPath orig] polygon_first_ring[of showNum p ps ws]
      path_first_ring[of showNum p ps ws] 6 convert_firstRingOnly[of st mk nid fs orig info]
    by blast
qed

text \<open>
  A triangle with a hole, on the capture of the scenario: the selector holds the three
  corners of the outer ring in image pixels, and nothing of the hole.
\<close>

lemma best_holed: "bestFeature [holedFeature] = Some (withArea holedFeature)"
  by (simp add: bestFeature_def sortByArea_def js_sort_def)

lemma holed_geometry:
  "f_geometry (withArea holedFeature) =
     Some \<lparr>g_type = ''Polygon'',
           g_coordinates = Some [[(0, 0), (125, 0), (0, 125)], [(10, 10), (20, 10), (10, 20)]]\<rparr>"
  by (simp add: withArea_def holedFeature_def polygonFeature_def)

lemma capturedInfo_fields:
  "ii_viewportBounds capturedInfo =
     Some \<lparr>vb_x = 1000, vb_y = 2000, vb_width = 500, vb_height = 500, vb_downsample = None\<rparr>"
  "ii_width capturedInfo = 250" "ii_height capturedInfo = 250"
  by (simp_all add: capturedInfo_def)

lemma show_outer:
  "createSVGPathFromWSICoordinates showExample
     [[(Fin 1000, Fin 2000), (Fin 1250, Fin 2000), (Fin 1000, Fin 2250)]] =
   ''<svg><polygon points='' @ dquote @ ''1000,2000 1250,2000 1000,2250'' @ dquote @ '' /></svg>''"
  by (simp add: createSVGPathFromWSICoordinates_def showPoint_def showJsnum_def showExample_def)

theorem C10_only_first_ring_witness:
  "convertSAMResultToAnnotation (xform_sam capturedState)
       (createSVGPathFromWSICoordinates showExample) ''sam-1-x''
       (ResultFeatures [holedFeature]) boxAnnotation capturedInfo =
     Some (samAnnotationOf ''sam-1-x''
             (''<svg><polygon points='' @ dquote @ ''1000,2000 1250,2000 1000,2250'' @ dquote @
              '' /></svg>'') boxAnnotation)"
proof -
  have a1: "bestFeature [holedFeature] = Some (withArea holedFeature)" by (rule best_holed)
  have a2: "g_coordinates \<lparr>g_type = ''Polygon'',
           g_coordinates = Some [[(0, 0), (125, 0), (0, 125)], [(10, 10), (20, 10), (10, 20)]]\<rparr>
        = Some ([(0, 0), (125, 0), (0, 125)] # [[(10, 10), (20, 10), (10, 20)]])" by simp
  have a5: "ii_width capturedInfo \<noteq> 0" "ii_height capturedInfo \<noteq> 0"
    by (simp_all add: capturedInfo_fields)
  show ?thesis
    using C10_only_first_ring[OF a1 holed_geometry a2 capturedInfo_fields(1) a5,
        of capturedState "createSVGPathFromWSICoordinates showExample" "''sam-1-x''"
           boxAnnotation]
    by (simp add: capturedInfo_fields show_outer)
qed

section \<open>The snapshot descriptor and the live viewport\<close>

lemma getCurrentViewportBounds_Some:
  "\<exists>b. getCurrentViewportBounds (Some v) = Some b"
  by (simp add: getCurrentViewportBounds_def Let_def split: prod.splits)

lemma getCurrentImageData_bounds:
  "getCurrentImageData vw = Some info \<Longrightarrow>
   vw \<noteq> None \<and> ii_viewportBounds info = getCurrentViewportBounds vw"
  by (auto simp: getCurrentImageData_def Let_def split: option.splits)

lemma captureSnapshot_result:
  assumes "captureSnapshot st = Some (st1, a, info)"
  shows "st_currentImageInfo st1 = Some a \<and> st_heap st1 a = Some info
       \<and> ii_viewportBounds info = getCurrentViewportBounds (st_viewer st)"
  using assms
  by (auto simp: captureSnapshot_def getCurrentImageData_def Let_def split: option.splits)

lemma captureSnapshot_state:
  assumes "captureSnapshot st = Some (st1, a, info)"
  shows "st1 = st\<lparr>st_heap := (st_heap st)(st_next st \<mapsto> info), st_next := st_next st + 1,
                   st_currentImageInfo := Some (st_next st)\<rparr>
       \<and> a = st_next st \<and> getCurrentImageData (st_viewer st) = Some info"
  using assms by (auto simp: captureSnapshot_def Let_def split: option.splits)

lemma captureSnapshot_inv:
  assumes "captureSnapshot st = Some (st1, a, info)"
  shows "historyInv a st1"
proof -
  from captureSnapshot_state[OF assms]
  have s: "st1 = st\<lparr>st_heap := (st_heap st)(st_next st \<mapsto> info), st_next := st_next st + 1,
                   st_currentImageInfo := Some (st_next st)\<rparr>"
    and a: "a = st_next st" and g: "getCurrentImageData (st_viewer st) = Some info" by simp_all
  show ?thesis unfolding historyInv_def s a by simp
qed

lemma panZoom_state:
  assumes "st_currentImageInfo st = Some c" and "st_heap st c = Some cur"
    and "getCurrentViewportBounds (Some v) = Some b"
  shows "panZoom v st =
     st\<lparr>st_viewer := Some v,
        st_heap := (st_heap st)(c \<mapsto> cur\<lparr>ii_viewportBounds := Some b\<rparr>)\<rparr>"
  using assms by (simp add: panZoom_def onAnimationFinish_def)

lemma panZoom_inv:
  assumes "historyInv a st"
  shows "historyInv a (panZoom v st)
       \<and> st_currentImageInfo (panZoom v st) = st_currentImageInfo st
       \<and> st_viewer (panZoom v st) = Some v
       \<and> Option.bind (st_heap (panZoom v st) a) ii_viewportBounds =
           (if st_currentImageInfo st = Some a then getCurrentViewportBounds (Some v)
            else Option.bind (st_heap st a) ii_viewportBounds)"
proof -
  from assms obtain c cur where c: "st_currentImageInfo st = Some c" "c < st_next st"
    "st_heap st c = Some cur" and a: "a < st_next st" "st_heap st a \<noteq> None"
    unfolding historyInv_def by blast
  obtain b where b: "getCurrentViewportBounds (Some v) = Some b"
    using getCurrentViewportBounds_Some by blast
  note p = panZoom_state[OF c(1) c(3) b]
  have 1: "historyInv a (panZoom v st)"
    unfolding p historyInv_def using c a b by simp
  have 2: "st_currentImageInfo (panZoom v st) = st_currentImageInfo st" unfolding p by simp
  have 3: "st_viewer (panZoom v st) = Some v" unfolding p by simp
  have 4: "Option.bind (st_heap (panZoom v st) a) ii_viewportBounds =
           (if st_currentImageInfo st = Some a then getCurrentViewportBounds (Some v)
            else Option.bind (st_heap st a) ii_viewportBounds)"
    unfolding p using c b by auto
  from 1 2 3 4 show ?thesis by blast
qed

lemma capture_step_failed:
  "getCurrentImageData (st_viewer st) = None \<Longrightarrow> step FurtherCapture st = st"
  by (simp add: step_def captureSnapshot_def)

lemma capture_step_inv:
  assumes "historyInv a st" and "getCurrentImageData (st_viewer st) \<noteq> None"
  shows "historyInv a (step FurtherCapture st)
       \<and> st_currentImageInfo (step FurtherCapture st) \<noteq> Some a
       \<and> st_heap (step FurtherCapture st) a = st_heap st a"
proof -
  from assms(2) obtain info where g: "getCurrentImageData (st_viewer st) = Some info" by blast
  have s: "step FurtherCapture st =
     st\<lparr>st_heap := (st_heap st)(st_next st \<mapsto> info), st_next := st_next st + 1,
        st_currentImageInfo := Some (st_next st)\<rparr>"
    by (simp add: step_def captureSnapshot_def g Let_def)
  from assms(1) have a: "a < st_next st" "st_heap st a \<noteq> None" unfolding historyInv_def by simp_all
  show ?thesis unfolding s historyInv_def using a by simp
qed

lemma runEvents_Cons: "runEvents (ev # evs) st = runEvents evs (step ev st)"
  by (simp add: runEvents_def)

lemma runEvents_Nil: "runEvents [] st = st"
  by (simp add: runEvents_def)

lemma step_PanZoom: "step (PanZoom v) st = panZoom v st"
  by (simp add: step_def)

lemma runEvents_history:
  assumes "historyInv a st"
  shows "historyInv a (runEvents evs st)
       \<and> Option.bind (st_heap (runEvents evs st) a) ii_viewportBounds =
           (if st_currentImageInfo st = Some a
            then descriptorAfter (Option.bind (st_heap st a) ii_viewportBounds) (st_viewer st) evs
            else Option.bind (st_heap st a) ii_viewportBounds)"
  using assms
proof (induction evs arbitrary: st)
  case Nil
  then show ?case by (simp add: runEvents_Nil)
next
  case (Cons ev evs)
  show ?case
  proof (cases ev)
    case (PanZoom v)
    note p = panZoom_inv[OF Cons.prems, of v]
    from p have i: "historyInv a (panZoom v st)" by blast
    note ih = Cons.IH[OF i]
    show ?thesis
      unfolding PanZoom runEvents_Cons step_PanZoom
      using ih p by (simp split: if_splits)
  next
    case FurtherCapture
    show ?thesis
    proof (cases "getCurrentImageData (st_viewer st) = None")
      case True
      note ih = Cons.IH[OF Cons.prems]
      show ?thesis
        unfolding FurtherCapture runEvents_Cons capture_step_failed[OF True]
        using ih True by simp
    next
      case False
      note c = capture_step_inv[OF Cons.prems False]
      from c have i: "historyInv a (step FurtherCapture st)" by blast
      note ih = Cons.IH[OF i]
      show ?thesis
        unfolding FurtherCapture runEvents_Cons
        using ih c False by auto
    qed
  qed
qed

lemma samPromptFinish_ok:
  "st_heap st a = Some obj \<Longrightarrow>
   samPromptFinish xform mk nid p a (FetchResponse True (Some r)) st =
     Inr (convertSAMResultToAnnotation (xform st) mk nid r p obj)"
  by (simp add: samPromptFinish_def)

text \<open>
  A history of pans and zooms alone, and one in which a capture succeeds after them: the
  descriptor is the one captured when there was no pan or zoom, and the bounds of the
  viewport at the last of them otherwise.
\<close>

lemma runEvents_pans: "runEvents (map PanZoom vs) st = panZooms vs st"
  by (induction vs arbitrary: st) (simp_all add: runEvents_def panZooms_def step_def)

lemma descriptorAfter_pans:
  "descriptorAfter b vw (map PanZoom vs) =
     (if vs = [] then b else getCurrentViewportBounds (Some (last vs)))"
  by (induction vs arbitrary: b vw) simp_all

lemma descriptorAfter_capture:
  assumes "getCurrentImageData (if vs = [] then vw else Some (last vs)) \<noteq> None"
  shows "descriptorAfter b vw (map PanZoom vs @ FurtherCapture # evs) =
     (if vs = [] then b else getCurrentViewportBounds (Some (last vs)))"
  using assms
proof (induction vs arbitrary: b vw)
  case Nil
  then show ?case by auto
next
  case (Cons v vs)
  show ?case
  proof (cases "vs = []")
    case True
    with Cons.prems show ?thesis by auto
  next
    case False
    with Cons.prems have "getCurrentImageData (if vs = [] then Some v else Some (last vs)) \<noteq> None"
      by simp
    from Cons.IH[OF this, of "getCurrentViewportBounds (Some v)"] False show ?thesis by simp
  qed
qed

text \<open>
  C6, amended.  The descriptor of a snapshot is not frozen.  After a capture, the
  snapshot object is the object \<open>window.currentImageInfo\<close> refers to, and every pan
  or zoom that finishes writes the live bounds into that object, until a further call of
  \<open>processSAMPrompt\<close> captures and makes the global refer to its own snapshot.
  After any history of pans, zooms and further captures, the snapshot object that the
  conversion and its inverse transform are given when the response arrives carries the
  captured bounds if no pan or zoom finished before the first further capture that
  succeeded (before the response, if none did), and the bounds of the viewport at the
  last pan or zoom that finished before it otherwise.
\<close>

theorem C6_descriptor_follows_viewport:
  assumes "captureSnapshot st = Some (st1, a, info)"
  shows "\<exists>obj. st_heap (runEvents evs st1) a = Some obj
             \<and> ii_viewportBounds obj =
                 descriptorAfter (ii_viewportBounds info) (st_viewer st1) evs
             \<and> samPromptFinish xform mk nid p a (FetchResponse True (Some r)) (runEvents evs st1) =
                 Inr (convertSAMResultToAnnotation (xform (runEvents evs st1)) mk nid r p obj)"
proof -
  from captureSnapshot_result[OF assms]
  have 1: "st_currentImageInfo st1 = Some a" and 2: "st_heap st1 a = Some info" by simp_all
  note h = runEvents_history[OF captureSnapshot_inv[OF assms], of evs]
  from h have i: "historyInv a (runEvents evs st1)" by blast
  then obtain obj where o: "st_heap (runEvents evs st1) a = Some obj"
    unfolding historyInv_def by blast
  from h have "Option.bind (st_heap (runEvents evs st1) a) ii_viewportBounds =
      descriptorAfter (ii_viewportBounds info) (st_viewer st1) evs"
    using 1 2 by simp
  hence b: "ii_viewportBounds obj = descriptorAfter (ii_viewportBounds info) (st_viewer st1) evs"
    using o by simp
  from o b samPromptFinish_ok[OF o] show ?thesis by blast
qed

lemma capture_exampleState: "captureSnapshot exampleState = Some (capturedState, 0, capturedInfo)"
  by (simp add: captureSnapshot_def getCurrentImageData_def exampleState_def capturedState_def
      capturedInfo_def exampleViewer_bounds Let_def)
     (simp add: exampleViewer_def js_round_def)

lemma movedViewer_bounds:
  "getCurrentViewportBounds (Some movedViewer) =
     Some \<lparr>vb_x = 3000, vb_y = 4000, vb_width = 500, vb_height = 500, vb_downsample = None\<rparr>"
  by (simp add: getCurrentViewportBounds_def movedViewer_def exampleViewer_def js_round_def Let_def)

text \<open>
  The user pans to offset (3000, 4000), a second request captures, the user pans to
  offset (5000, 6000), and the response of the first request arrives: its snapshot
  carries the bounds at offset (3000, 4000).
\<close>

lemma movedViewer_captures: "getCurrentImageData (Some movedViewer) \<noteq> None"
  by (simp add: getCurrentImageData_def movedViewer_def exampleViewer_def Let_def)

lemma capturedState_viewer: "st_viewer capturedState = Some exampleViewer"
  by (simp add: capturedState_def exampleState_def)

theorem C6_descriptor_follows_viewport_witness:
  "\<exists>obj. st_heap (runEvents [PanZoom movedViewer, FurtherCapture, PanZoom thirdViewer]
                     capturedState) 0 = Some obj
         \<and> ii_viewportBounds obj =
             Some \<lparr>vb_x = 3000, vb_y = 4000, vb_width = 500, vb_height = 500, vb_downsample = None\<rparr>
         \<and> samPromptFinish xform_sam (createSVGPathFromWSICoordinates showExample) ''sam-1-x''
               boxAnnotation 0 (FetchResponse True (Some (ResultFeatures [triangle50])))
               (runEvents [PanZoom movedViewer, FurtherCapture, PanZoom thirdViewer] capturedState) =
             Inr (convertSAMResultToAnnotation
                    (xform_sam (runEvents [PanZoom movedViewer, FurtherCapture, PanZoom thirdViewer]
                                  capturedState))
                    (createSVGPathFromWSICoordinates showExample) ''sam-1-x''
                    (ResultFeatures [triangle50]) boxAnnotation obj)"
  using C6_descriptor_follows_viewport[OF capture_exampleState,
      of "[PanZoom movedViewer, FurtherCapture, PanZoom thirdViewer]" xform_sam
      "createSVGPathFromWSICoordinates showExample" "''sam-1-x''" boxAnnotation
      "ResultFeatures [triangle50]"]
  by (simp only: descriptorAfter.simps movedViewer_bounds movedViewer_captures if_False)

lemma heap_after_pan:
  "st_heap (panZooms [movedViewer] capturedState) 0 =
     Some (capturedInfo\<lparr>ii_viewportBounds :=
        Some \<lparr>vb_x = 3000, vb_y = 4000, vb_width = 500, vb_height = 500, vb_downsample = None\<rparr>\<rparr>)"
  by (simp add: panZooms_def panZoom_def onAnimationFinish_def capturedState_def
      movedViewer_bounds)

text \<open>
  C6, the claim as stated fails.  The snapshot is taken with the visible region at
  offset (1000, 2000); the user pans to offset (3000, 4000) before the response
  arrives.  The inverse transform of the response point (125, 125), run on the snapshot
  object as it is then, gives (3250, 4250); with the descriptor as captured it gives
  (1250, 2250).
\<close>

theorem C6_frozen_descriptor_counterexample:
  "Option.bind (captureSnapshot exampleState)
     (\<lambda>(s, a, info). map_option (transformCanvasToWSICoordinates [[(125, 125)]])
                        (st_heap (panZooms [movedViewer] s) a))
     = Some (Inr (Some [[(Fin 3250, Fin 4250)]]))
   \<and> Option.bind (captureSnapshot exampleState)
     (\<lambda>(s, a, info). Some (transformCanvasToWSICoordinates [[(125, 125)]] info))
     = Some (Inr (Some [[(Fin 1250, Fin 2250)]]))"
  by (simp add: capture_exampleState heap_after_pan)
     (simp add: capturedInfo_def transformCanvasToWSICoordinates_def viewportToWsiCoords_def
        regionOf_def jsnum_recip_def jsnum_times_def jsnum_plus_def)

section \<open>Settling a request\<close>












text \<open>
  The failures of a run: a capture error, a network error and a response that is not 2xx
  reject the promise; a response without a candidate resolves it with \<open>null\<close>.
\<close>

lemma capture_error_outcome:
  "st_samConnected st \<Longrightarrow> getCurrentImageData (st_viewer st) = None \<Longrightarrow>
   samPromptStart fwd extract p st = (st, Inl CaptureFailed)"
  by (simp add: samPromptStart_def captureSnapshot_def)


lemma non_2xx_outcome:
  "samPromptFinish xform mk nid p a (FetchResponse False body) st = Inl RequestFailed"
  by (simp add: samPromptFinish_def)

lemma sortByArea_Nil: "sortByArea [] = []"
  by (simp add: sortByArea_def js_sort_def)

lemma empty_result_outcome:
  "convertSAMResultToAnnotation xf mk nid ResultFalsy p info = None"
  "convertSAMResultToAnnotation xf mk nid ResultOther p info = None"
  "convertSAMResultToAnnotation xf mk nid (ResultFeatures []) p info = None"
  "convertSAMResultToAnnotation xf mk nid (ResultArray []) p info = None"
  by (simp_all add: convertSAMResultToAnnotation_def featuresOf_def bestFeature_def
      sortByArea_Nil List.map_filter_simps)




lemma capturedState_fields:
  "st_currentTool capturedState = ''sam-rect''"
  "st_anno capturedState = [boxAnnotation]"
  "st_annotations capturedState = (\<lambda>t. None)"
  by (simp_all add: capturedState_def exampleState_def)





text \<open>
  A response whose smallest candidate has an empty first ring is no failure to the code:
  the conversion returns an annotation with an empty selector.
\<close>

lemma best_emptyRing: "bestFeature [emptyRingFeature] = Some (withArea emptyRingFeature)"
  by (simp add: bestFeature_def sortByArea_def js_sort_def)

lemma emptyRing_converted:
  "convertSAMResultToAnnotation (xform_sam st) (createSVGPathFromWSICoordinates showNum) nid
     (ResultFeatures [emptyRingFeature]) orig capturedInfo = Some (samAnnotationOf nid [] orig)"
  by (simp add: convertSAMResultToAnnotation_def featuresOf_def best_emptyRing)
     (simp add: withArea_def emptyRingFeature_def polygonFeature_def xform_sam_def
        transformCanvasToWSICoordinates_def capturedInfo_def viewportToWsiCoords_def
        createSVGPathFromWSICoordinates_def)

lemma emptyRing_outcome:
  "samPromptFinish xform_sam (createSVGPathFromWSICoordinates showExample) ''sam-1-x''
      boxAnnotation 0 (FetchResponse True (Some (ResultFeatures [emptyRingFeature])))
      capturedState = Inr (Some (samAnnotationOf ''sam-1-x'' [] boxAnnotation))"
  by (simp add: samPromptFinish_def capturedState_def emptyRing_converted)


lemma bodyCarried_id: "a_id (bodyCarried ann sam) = a_id sam"
  by (simp add: bodyCarried_def split: option.splits list.splits)



lemma settle_success_anno:
  "st_anno (onSamSettled ann (Inr (Some sam)) st) =
     filter (\<lambda>b. a_id b \<noteq> a_id sam) (filter (\<lambda>b. a_id b \<noteq> a_id ann) (st_anno st))
       @ [bodyCarried ann sam]"
  by (simp add: onSamSettled_def onSamRejected_def ensureAddAnnotation_def anno_addAnnotation_def
      anno_removeAnnotation_def bodyCarried_id split: prod.splits option.splits)









text \<open>
  With the response of the empty ring the box is replaced in the drawing layer by an
  annotation with an empty selector.
\<close>

lemma emptyRing_replaces_box:
  "st_anno (onSamSettled boxAnnotation
      (samPromptFinish xform_sam (createSVGPathFromWSICoordinates showExample) ''sam-1-x''
         boxAnnotation 0 (FetchResponse True (Some (ResultFeatures [emptyRingFeature])))
         capturedState) capturedState) = [samAnnotationOf ''sam-1-x'' [] boxAnnotation]"
  by (simp add: emptyRing_outcome settle_success_anno capturedState_fields)
     (simp add: bodyCarried_def boxAnnotation_def samAnnotationOf_def)

end
